theory Spec2Isabelle
  imports Main "HOL-Library.Word"
begin

unbundle bit_operations_syntax

section \<open>VFD spindle over RS485 Modbus (Spindles/VFDSpindle.cpp)\<close>

text \<open>
  A shallow embedding of \<^verbatim>\<open>Spindles::VFD\<close>: the checksum codec \<^verbatim>\<open>ModRTU_CRC\<close>, the
  communications task \<^verbatim>\<open>vfd_cmd_task\<close> (one iteration of its endless loop is one step
  on an explicit state), and the spindle operations \<^verbatim>\<open>init\<close>, \<^verbatim>\<open>set_state\<close>,
  \<^verbatim>\<open>set_mode\<close>, \<^verbatim>\<open>set_rpm\<close>, \<^verbatim>\<open>stop\<close> and \<^verbatim>\<open>get_state\<close>. The build modelled
  is the one without \<^verbatim>\<open>VFD_DEBUG_MODE\<close>.
\<close>

subsection \<open>Machine integers and constants\<close>

type_synonym u8 = "8 word"
type_synonym u16 = "16 word"
type_synonym u32 = "32 word"

definition VFD_RS485_QUEUE_SIZE :: nat where
  "VFD_RS485_QUEUE_SIZE = 10"

definition RESPONSE_WAIT_TICKS :: nat where
  "RESPONSE_WAIT_TICKS = 50"

definition VFD_RS485_POLL_RATE :: nat where
  "VFD_RS485_POLL_RATE = 200"

definition VFD_RS485_ADDR :: u8 where
  "VFD_RS485_ADDR = 0x01"

subsection \<open>Checksum codec\<close>

text \<open>
  The inner loop of \<^verbatim>\<open>ModRTU_CRC\<close>, \<^verbatim>\<open>for (int i = 8; i != 0; i--)\<close>: the first
  argument is \<^verbatim>\<open>i\<close>.
\<close>

fun crc_bit_loop :: "nat \<Rightarrow> u16 \<Rightarrow> u16" where
  "crc_bit_loop 0 crc = crc"
| "crc_bit_loop (Suc i) crc =
     crc_bit_loop i
       (if crc AND 0x0001 \<noteq> 0 then drop_bit 1 crc XOR 0xA001 else drop_bit 1 crc)"

text \<open>
  The outer loop, \<^verbatim>\<open>for (int pos = 0; pos < msg_len; pos++)\<close>, over the bytes
  \<^verbatim>\<open>buf[0] .. buf[msg_len - 1]\<close>.
\<close>

fun crc_byte_loop :: "u8 list \<Rightarrow> u16 \<Rightarrow> u16" where
  "crc_byte_loop [] crc = crc"
| "crc_byte_loop (b # bs) crc = crc_byte_loop bs (crc_bit_loop 8 (crc XOR ucast b))"

definition ModRTU_CRC :: "u8 list \<Rightarrow> nat \<Rightarrow> u16" where
  "ModRTU_CRC buf msg_len = crc_byte_loop (take msg_len buf) 0xFFFF"

text \<open>
  The checksum as section 4.1 of the specification words it: start from \<open>0xFFFF\<close>; for
  each byte, XOR it into the low byte, then eight times: if bit 0 is set, shift right and
  XOR with \<open>0xA001\<close>, else shift right.
\<close>

definition spec_crc_shift :: "u16 \<Rightarrow> u16" where
  "spec_crc_shift c = (if bit c 0 then drop_bit 1 c XOR 0xA001 else drop_bit 1 c)"

definition spec_checksum :: "u8 list \<Rightarrow> u16" where
  "spec_checksum bytes = fold (\<lambda>b c. (spec_crc_shift ^^ 8) (c XOR ucast b)) bytes 0xFFFF"

text \<open>The two checksum bytes as the task computes them from the 16-bit value.\<close>

definition crc_hi :: "u16 \<Rightarrow> u16" where
  "crc_hi crc16 = drop_bit 8 (crc16 AND 0xFF00)"

definition crc_lo :: "u16 \<Rightarrow> u16" where
  "crc_lo crc16 = crc16 AND 0xFF"

subsection \<open>Command envelope\<close>

text \<open>
  \<^verbatim>\<open>ModbusCommand\<close> is declared in \<^verbatim>\<open>VFDSpindle.h\<close>, outside the files at hand; the
  code uses these four fields. The two lengths are natural numbers here and \<^verbatim>\<open>msg\<close> is
  the list of the bytes of the buffer.
\<close>

record ModbusCommand =
  critical :: bool
  tx_length :: nat
  rx_length :: nat
  msg :: "u8 list"

text \<open>
  The block of \<^verbatim>\<open>vfd_cmd_task\<close> that appends the checksum to \<^verbatim>\<open>next_cmd\<close>: the low
  byte at \<^verbatim>\<open>msg[tx_length - 2]\<close>, the high byte at \<^verbatim>\<open>msg[tx_length - 1]\<close>, after both
  lengths have grown by two.
\<close>

definition add_crc :: "ModbusCommand \<Rightarrow> ModbusCommand" where
  "add_crc next_cmd =
     (let crc16 = ModRTU_CRC (msg next_cmd) (tx_length next_cmd);
          c1 = next_cmd\<lparr>tx_length := tx_length next_cmd + 2,
                        rx_length := rx_length next_cmd + 2\<rparr>;
          c2 = c1\<lparr>msg := (msg c1)[tx_length c1 - 1 := ucast (crc_hi crc16)]\<rparr>
      in c2\<lparr>msg := (msg c2)[tx_length c2 - 2 := ucast (crc_lo crc16)]\<rparr>)"

text \<open>The bytes \<^verbatim>\<open>uart_write_bytes\<close> puts on the wire: \<^verbatim>\<open>tx_length\<close> bytes of \<^verbatim>\<open>msg\<close>.\<close>

definition tx_frame :: "ModbusCommand \<Rightarrow> u8 list" where
  "tx_frame cmd = take (tx_length cmd) (msg cmd)"

text \<open>
  The two checksum comparisons of the response test, on the receive buffer, with
  \<^verbatim>\<open>crc16response = ModRTU_CRC(rx_message, rx_length - 2)\<close>.
\<close>

definition crc_check :: "u8 list \<Rightarrow> nat \<Rightarrow> nat \<Rightarrow> bool" where
  "crc_check rx_message read_length rx_len =
     (let crc16response = ModRTU_CRC rx_message (rx_len - 2)
      in ucast (rx_message ! (read_length - 1)) = crc_hi crc16response \<and>
         ucast (rx_message ! (read_length - 2)) = crc_lo crc16response)"

text \<open>
  The whole test of a response: expected length, address, checksum. The conjunction is
  evaluated left to right, as \<^verbatim>\<open>&&\<close> is.
\<close>

definition response_ok :: "u8 list \<Rightarrow> nat \<Rightarrow> nat \<Rightarrow> bool" where
  "response_ok rx_message read_length rx_len =
     (if read_length \<noteq> rx_len then False
      else if rx_message ! 0 \<noteq> VFD_RS485_ADDR then False
      else crc_check rx_message read_length rx_len)"

subsection \<open>Device state, system state and the environment\<close>

datatype SpindleState = Disable | Cw | Ccw

text \<open>
  The machine states of \<^verbatim>\<open>sys.state\<close>. The enumeration is declared outside the files
  at hand; the spindle code only compares with \<^verbatim>\<open>State::Cycle\<close>.
\<close>

datatype State = Idle | Alarm | CheckMode | Homing | Cycle | Hold | Jog | SafetyDoor | Sleep

text \<open>
  What the code does to the outside world, in the order it does it: messages
  (\<^verbatim>\<open>grbl_msg_sendf(CLIENT_SERIAL, MsgLevel::Info, ...)\<close>, with the integer argument of
  the one format that has one), the UART calls of the task, task delays, the system
  alarm \<^verbatim>\<open>system_set_exec_alarm(ExecAlarm::SpindleControl)\<close>, the two dwells
  \<^verbatim>\<open>mc_dwell(spindle_delay_spindown->get())\<close> and
  \<^verbatim>\<open>mc_dwell(spindle_delay_spinup->get())\<close>, and \<^verbatim>\<open>config_message\<close> with its three
  pins.
\<close>

datatype event =
    Msg string
  | MsgInt string nat
  | UartFlush
  | UartWrite "u8 list"
  | TaskDelay nat
  | ExecAlarmSpindleControl
  | DwellSpindown
  | DwellSpinup
  | ConfigMessage nat nat nat

record VFD =
  vfd_ok :: bool
  task_running :: bool
  is_reversable :: bool
  use_delays :: bool
  txd_pin :: nat
  rxd_pin :: nat
  rts_pin :: nat
  min_rpm :: u32
  max_rpm :: u32
  current_rpm :: u32
  current_state :: SpindleState

text \<open>
  A response parser reads the received bytes and the instance, may update the instance,
  and reports success.
\<close>

type_synonym response_parser = "u8 list \<Rightarrow> VFD \<Rightarrow> bool \<times> VFD"

text \<open>
  What \<^verbatim>\<open>VFDSpindle.h\<close> and the vendor subclasses contribute, which are not among the
  files at hand: the two constants and the virtual hooks. They are parameters of the
  model; \<^verbatim>\<open>MAX_RETRIES\<close>, the retry ceiling, is a natural number. A hook reads the instance and the command it is given and returns the command
  it has filled in; the four \<^verbatim>\<open>get_*\<close> hooks also return a parser, or none when the
  vendor does not support the request.
\<close>

record driver =
  MAX_RETRIES :: nat
  VFD_RS485_MAX_MSG_SIZE :: nat
  direction_command :: "VFD \<Rightarrow> SpindleState \<Rightarrow> ModbusCommand \<Rightarrow> ModbusCommand"
  set_speed_command :: "VFD \<Rightarrow> u32 \<Rightarrow> ModbusCommand \<Rightarrow> ModbusCommand"
  get_max_rpm :: "VFD \<Rightarrow> ModbusCommand \<Rightarrow> response_parser option \<times> ModbusCommand"
  get_current_rpm :: "VFD \<Rightarrow> ModbusCommand \<Rightarrow> response_parser option \<times> ModbusCommand"
  get_current_direction :: "VFD \<Rightarrow> ModbusCommand \<Rightarrow> response_parser option \<times> ModbusCommand"
  get_status_ok :: "VFD \<Rightarrow> ModbusCommand \<Rightarrow> response_parser option \<times> ModbusCommand"

text \<open>
  The build and the settings \<^verbatim>\<open>init\<close> reads: the three pin macros (\<open>None\<close> when the
  macro is not defined), \<^verbatim>\<open>laser_mode->get()\<close>, \<^verbatim>\<open>rpm_min->get()\<close>,
  \<^verbatim>\<open>rpm_max->get()\<close>, and whether each of the four UART configuration calls returns
  \<^verbatim>\<open>ESP_OK\<close>.
\<close>

record settings =
  VFD_RS485_TXD_PIN :: "nat option"
  VFD_RS485_RXD_PIN :: "nat option"
  VFD_RS485_RTS_PIN :: "nat option"
  laser_mode :: bool
  rpm_min :: u32
  rpm_max :: u32
  uart_param_config_ok :: bool
  uart_set_pin_ok :: bool
  uart_driver_install_ok :: bool
  uart_set_mode_ok :: bool

text \<open>
  Everything the code reads and writes: the instance, the fields of \<^verbatim>\<open>sys\<close> it uses
  (\<^verbatim>\<open>sys.spindle_speed\<close> holds the integer assigned to it), the command queue, the
  statics and locals of the task that live across iterations, the number of reads made
  on the serial link, and the trace of events.
\<close>

record machine =
  vfd :: VFD
  sys_abort :: bool
  sys_state :: State
  sys_spindle_speed_ovr :: u8
  sys_spindle_speed :: u32
  sys_report_ovr_counter :: nat
  vfd_cmd_queue :: "ModbusCommand list"
  unresponsive :: bool
  pollidx :: int
  next_cmd :: ModbusCommand
  rx_message :: "u8 list"
  uart_reads :: nat
  trace :: "event list"

subsection \<open>Collaborators\<close>

definition grbl_msg_sendf :: "string \<Rightarrow> machine \<Rightarrow> machine" where
  "grbl_msg_sendf text s = s\<lparr>trace := trace s @ [Msg text]\<rparr>"

definition vTaskDelay :: "nat \<Rightarrow> machine \<Rightarrow> machine" where
  "vTaskDelay ticks s = s\<lparr>trace := trace s @ [TaskDelay ticks]\<rparr>"

definition emit :: "event \<Rightarrow> machine \<Rightarrow> machine" where
  "emit e s = s\<lparr>trace := trace s @ [e]\<rparr>"

text \<open>
  The bounded queue of \<^verbatim>\<open>VFD_RS485_QUEUE_SIZE\<close> commands, used without waiting:
  sending to a full queue fails, receiving from an empty one fails, a reset empties it
  and succeeds.
\<close>

definition xQueueSend :: "ModbusCommand list \<Rightarrow> ModbusCommand \<Rightarrow> bool \<times> ModbusCommand list" where
  "xQueueSend q item = (if length q < VFD_RS485_QUEUE_SIZE then (True, q @ [item]) else (False, q))"

definition xQueueReceive :: "ModbusCommand list \<Rightarrow> (ModbusCommand \<times> ModbusCommand list) option" where
  "xQueueReceive q = (case q of [] \<Rightarrow> None | item # rest \<Rightarrow> Some (item, rest))"

definition xQueueReset :: "ModbusCommand list \<Rightarrow> bool \<times> ModbusCommand list" where
  "xQueueReset q = (True, [])"

text \<open>
  The serial link is a function from the number of the read to the bytes that arrive
  within the response wait; none is a timeout. \<^verbatim>\<open>uart_read_bytes\<close> stores at most the
  requested number of them at the start of the receive buffer and returns how many. An
  error return of the UART driver is not part of the model.
\<close>

type_synonym link = "nat \<Rightarrow> u8 list"

definition uart_read_bytes :: "link \<Rightarrow> machine \<Rightarrow> nat \<Rightarrow> nat \<times> machine" where
  "uart_read_bytes L s len =
     (let got = take len (L (uart_reads s))
      in (length got,
          s\<lparr>rx_message := got @ drop (length got) (rx_message s),
            uart_reads := Suc (uart_reads s)\<rparr>))"

text \<open>
  A local \<^verbatim>\<open>ModbusCommand\<close> after \<^verbatim>\<open>msg[0] = VFD_RS485_ADDR\<close>. The fields the code
  leaves uninitialised are zero here; the vendor hook fills in what it sends.
\<close>

definition local_cmd :: "driver \<Rightarrow> ModbusCommand" where
  "local_cmd D =
     \<lparr>critical = False, tx_length = 0, rx_length = 0,
      msg = (replicate (VFD_RS485_MAX_MSG_SIZE D) 0)[0 := VFD_RS485_ADDR]\<rparr>"

subsection \<open>The spindle operations\<close>

definition set_mode :: "driver \<Rightarrow> machine \<Rightarrow> SpindleState \<Rightarrow> bool \<Rightarrow> bool \<times> machine" where
  "set_mode D s mode crit =
     (if \<not> vfd_ok (vfd s) then (False, s)
      else
        let mode_cmd = direction_command D (vfd s) mode (local_cmd D);
            s1 = (if mode = Disable then
                    (case xQueueReset (vfd_cmd_queue s) of
                       (ok, q) \<Rightarrow>
                         if \<not> ok
                         then grbl_msg_sendf ''VFD spindle off, queue could not be reset''
                                (s\<lparr>vfd_cmd_queue := q\<rparr>)
                         else s\<lparr>vfd_cmd_queue := q\<rparr>)
                  else s);
            mode_cmd1 = mode_cmd\<lparr>critical := crit\<rparr>;
            s2 = s1\<lparr>vfd := (vfd s1)\<lparr>current_state := mode\<rparr>\<rparr>
        in case xQueueSend (vfd_cmd_queue s2) mode_cmd1 of
             (ok, q) \<Rightarrow>
               if \<not> ok then (True, grbl_msg_sendf ''VFD Queue Full'' s2)
               else (True, s2\<lparr>vfd_cmd_queue := q\<rparr>))"

text \<open>
  The override scaling of \<^verbatim>\<open>set_rpm\<close>, \<^verbatim>\<open>rpm * sys.spindle_speed_ovr / 100\<close> in
  32-bit unsigned arithmetic, and its limits.
\<close>

definition apply_override :: "u32 \<Rightarrow> u8 \<Rightarrow> u32" where
  "apply_override rpm ovr = (rpm * ucast ovr) div 100"

definition apply_limits :: "u32 \<Rightarrow> u32 \<Rightarrow> u32 \<Rightarrow> u32" where
  "apply_limits lo hi rpm =
     (if lo \<ge> hi \<or> rpm \<ge> hi then hi
      else if rpm \<noteq> 0 \<and> rpm \<le> lo then lo
      else rpm)"

definition set_rpm :: "driver \<Rightarrow> machine \<Rightarrow> u32 \<Rightarrow> u32 \<times> machine" where
  "set_rpm D s rpm0 =
     (if \<not> vfd_ok (vfd s) then (0, s)
      else
        let rpm = apply_limits (min_rpm (vfd s)) (max_rpm (vfd s))
                    (apply_override rpm0 (sys_spindle_speed_ovr s));
            s1 = s\<lparr>sys_spindle_speed := rpm\<rparr>
        in if rpm = current_rpm (vfd s1) then (rpm, s1)
           else
             let s2 = s1\<lparr>vfd := (vfd s1)\<lparr>current_rpm := rpm\<rparr>\<rparr>;
                 rpm_cmd = (set_speed_command D (vfd s2) rpm (local_cmd D))\<lparr>critical := False\<rparr>
             in case xQueueSend (vfd_cmd_queue s2) rpm_cmd of
                  (ok, q) \<Rightarrow>
                    if \<not> ok then (rpm, grbl_msg_sendf ''VFD Queue Full'' s2)
                    else (rpm, s2\<lparr>vfd_cmd_queue := q\<rparr>))"

definition set_state :: "driver \<Rightarrow> machine \<Rightarrow> SpindleState \<Rightarrow> u32 \<Rightarrow> machine" where
  "set_state D s state rpm =
     (if sys_abort s then s
      else
        let crit = (sys_state s = Cycle \<or> state \<noteq> Disable);
            s1 = (if current_state (vfd s) \<noteq> state then
                    let sa = snd (set_mode D s state crit);
                        sb = snd (set_rpm D sa rpm)
                    in if state = Disable then
                         let sc = sb\<lparr>sys_spindle_speed := 0\<rparr>
                         in if current_state (vfd sc) \<noteq> state then emit DwellSpindown sc else sc
                       else
                         if current_state (vfd sb) \<noteq> state then emit DwellSpinup sb else sb
                  else
                    if current_rpm (vfd s) \<noteq> rpm then snd (set_rpm D s rpm) else s);
            s2 = s1\<lparr>vfd := (vfd s1)\<lparr>current_state := state\<rparr>\<rparr>
        in s2\<lparr>sys_report_ovr_counter := 0\<rparr>)"

definition stop :: "driver \<Rightarrow> machine \<Rightarrow> machine" where
  "stop D s = snd (set_mode D s Disable False)"

definition get_state :: "machine \<Rightarrow> SpindleState" where
  "get_state s = current_state (vfd s)"

subsection \<open>Initialisation\<close>

definition get_pins_and_settings :: "settings \<Rightarrow> machine \<Rightarrow> bool \<times> machine" where
  "get_pins_and_settings E s =
     (let (ok1, s1) = (case VFD_RS485_TXD_PIN E of
                         Some p \<Rightarrow> (True, s\<lparr>vfd := (vfd s)\<lparr>txd_pin := p\<rparr>\<rparr>)
                       | None \<Rightarrow> (False, grbl_msg_sendf ''Undefined VFD_RS485_TXD_PIN'' s));
          (ok2, s2) = (case VFD_RS485_RXD_PIN E of
                         Some p \<Rightarrow> (ok1, s1\<lparr>vfd := (vfd s1)\<lparr>rxd_pin := p\<rparr>\<rparr>)
                       | None \<Rightarrow> (False, grbl_msg_sendf ''Undefined VFD_RS485_RXD_PIN'' s1));
          (ok3, s3) = (case VFD_RS485_RTS_PIN E of
                         Some p \<Rightarrow> (ok2, s2\<lparr>vfd := (vfd s2)\<lparr>rts_pin := p\<rparr>\<rparr>)
                       | None \<Rightarrow> (False, grbl_msg_sendf ''Undefined VFD_RS485_RTS_PIN'' s2));
          (ok4, s4) = (if laser_mode E
                       then (False, grbl_msg_sendf
                              ''VFD spindle disabled in laser mode. Set $GCode/LaserMode=Off and restart'' s3)
                       else (ok3, s3))
      in (ok4, s4\<lparr>vfd := (vfd s4)\<lparr>min_rpm := rpm_min E, max_rpm := rpm_max E\<rparr>\<rparr>))"

definition config_message :: "machine \<Rightarrow> machine" where
  "config_message s =
     emit (ConfigMessage (txd_pin (vfd s)) (rxd_pin (vfd s)) (rts_pin (vfd s))) s"

definition init :: "settings \<Rightarrow> machine \<Rightarrow> machine" where
  "init E s =
     (let s0 = grbl_msg_sendf ''Initializing RS485 VFD spindle''
                 (s\<lparr>vfd := (vfd s)\<lparr>vfd_ok := False\<rparr>\<rparr>);
          (pins_settings_ok, s1) = get_pins_and_settings E s0
      in if \<not> pins_settings_ok
         then grbl_msg_sendf ''RS485 VFD spindle errors'' (s1\<lparr>vfd := (vfd s1)\<lparr>vfd_ok := False\<rparr>\<rparr>)
         else if \<not> uart_param_config_ok E
         then grbl_msg_sendf ''RS485 VFD uart parameters failed'' s1
         else if \<not> uart_set_pin_ok E
         then grbl_msg_sendf ''RS485 VFD uart pin config failed'' s1
         else if \<not> uart_driver_install_ok E
         then grbl_msg_sendf ''RS485 VFD uart driver install failed'' s1
         else if \<not> uart_set_mode_ok E
         then grbl_msg_sendf ''RS485 VFD uart set half duplex failed'' s1
         else
           let s2 = (if \<not> task_running (vfd s1)
                     then s1\<lparr>vfd_cmd_queue := [], vfd := (vfd s1)\<lparr>task_running := True\<rparr>\<rparr>
                     else s1);
               s3 = s2\<lparr>vfd := (vfd s2)\<lparr>is_reversable := True, use_delays := True,
                                       vfd_ok := True, current_rpm := 0,
                                       current_state := Disable\<rparr>\<rparr>
           in config_message s3)"

subsection \<open>The communications task\<close>

text \<open>
  The polling \<^verbatim>\<open>switch (pollidx)\<close> with its intended fall-through: the result is the
  parser, the new \<^verbatim>\<open>pollidx\<close> and the command as the hooks called have left it.
\<close>

definition poll_case3 ::
  "driver \<Rightarrow> VFD \<Rightarrow> ModbusCommand \<Rightarrow> response_parser option \<times> int \<times> ModbusCommand" where
  "poll_case3 D v cmd = (case get_status_ok D v cmd of (parser, c) \<Rightarrow> (parser, 1, c))"

definition poll_case2 ::
  "driver \<Rightarrow> VFD \<Rightarrow> ModbusCommand \<Rightarrow> response_parser option \<times> int \<times> ModbusCommand" where
  "poll_case2 D v cmd =
     (case get_current_direction D v cmd of
        (Some parser, c) \<Rightarrow> (Some parser, 3, c)
      | (None, c) \<Rightarrow> poll_case3 D v c)"

definition poll_case1 ::
  "driver \<Rightarrow> VFD \<Rightarrow> ModbusCommand \<Rightarrow> response_parser option \<times> int \<times> ModbusCommand" where
  "poll_case1 D v cmd =
     (case get_current_rpm D v cmd of
        (Some parser, c) \<Rightarrow> (Some parser, 2, c)
      | (None, c) \<Rightarrow> poll_case2 D v c)"

definition poll_switch ::
  "driver \<Rightarrow> VFD \<Rightarrow> int \<Rightarrow> ModbusCommand \<Rightarrow> response_parser option \<times> int \<times> ModbusCommand" where
  "poll_switch D v idx cmd =
     (if idx = 1 then poll_case1 D v cmd
      else if idx = 2 then poll_case2 D v cmd
      else if idx = 3 then poll_case3 D v cmd
      else (None, idx, cmd))"

text \<open>
  The first \<^verbatim>\<open>if\<close> of an iteration, after \<^verbatim>\<open>parser = nullptr\<close> and
  \<^verbatim>\<open>next_cmd.msg[0] = VFD_RS485_ADDR\<close>. The \<^verbatim>\<open>||\<close> and \<^verbatim>\<open>&&\<close> of its condition
  evaluate left to right and stop early: \<^verbatim>\<open>get_max_rpm\<close> is called only when
  \<^verbatim>\<open>pollidx\<close> is not 0 and \<^verbatim>\<open>_max_rpm\<close> is 0.
\<close>

definition max_rpm_check :: "driver \<Rightarrow> machine \<Rightarrow> response_parser option \<times> machine" where
  "max_rpm_check D s =
     (let s1 = s\<lparr>next_cmd := (next_cmd s)\<lparr>msg := (msg (next_cmd s))[0 := VFD_RS485_ADDR]\<rparr>\<rparr>
      in if pollidx s1 = 0
         then (None, s1\<lparr>pollidx := 1, next_cmd := (next_cmd s1)\<lparr>critical := True\<rparr>\<rparr>)
         else if max_rpm (vfd s1) = 0
         then (case get_max_rpm D (vfd s1) (next_cmd s1) of
                 (Some parser, c) \<Rightarrow>
                   (Some parser, s1\<lparr>pollidx := 1, next_cmd := c\<lparr>critical := True\<rparr>\<rparr>)
               | (None, c) \<Rightarrow> (None, s1\<lparr>next_cmd := c\<lparr>critical := False\<rparr>\<rparr>))
         else (None, s1\<lparr>next_cmd := (next_cmd s1)\<lparr>critical := False\<rparr>\<rparr>))"

text \<open>
  The second \<^verbatim>\<open>if\<close>: without a parser the queue goes first, then the poll cycle. The
  boolean of the result is false on the path that delays and \<^verbatim>\<open>continue\<close>s.
\<close>

definition choose_cmd :: "driver \<Rightarrow> machine \<Rightarrow> (response_parser option \<times> bool) \<times> machine" where
  "choose_cmd D s =
     (case max_rpm_check D s of
        (Some parser, s1) \<Rightarrow> ((Some parser, True), s1)
      | (None, s1) \<Rightarrow>
          (case xQueueReceive (vfd_cmd_queue s1) of
             Some (item, rest) \<Rightarrow> ((None, True), s1\<lparr>next_cmd := item, vfd_cmd_queue := rest\<rparr>)
           | None \<Rightarrow>
               (case poll_switch D (vfd s1) (pollidx s1) (next_cmd s1) of
                  (parser, idx, c) \<Rightarrow>
                    let s2 = s1\<lparr>pollidx := idx, next_cmd := c\<rparr>
                    in if parser = None then ((None, False), vTaskDelay VFD_RS485_POLL_RATE s2)
                       else ((parser, True), s2))))"

text \<open>
  The body of the retry loop. The result is \<^verbatim>\<open>retry_count\<close> at the end of the body
  (before \<^verbatim>\<open>++retry_count\<close>) and the state.
\<close>

definition attempt ::
  "driver \<Rightarrow> link \<Rightarrow> response_parser option \<Rightarrow> nat \<Rightarrow> machine \<Rightarrow> nat \<times> machine" where
  "attempt D L parser retry_count s =
     (let cmd = next_cmd s;
          s1 = emit (UartWrite (tx_frame cmd)) (emit UartFlush s);
          (read_length, s2) = uart_read_bytes L s1 (rx_length cmd)
      in if response_ok (rx_message s2) read_length (rx_length cmd)
         then
           let s3 = s2\<lparr>unresponsive := False\<rparr>
           in (case parser of
                 None \<Rightarrow> (MAX_RETRIES D + 1, s3)
               | Some p \<Rightarrow>
                   (case p (rx_message s3) (vfd s3) of
                      (ok, v) \<Rightarrow>
                        if \<not> ok
                        then (MAX_RETRIES D + 1,
                              grbl_msg_sendf ''Spindle RS485 did not give a satisfying response''
                                (s3\<lparr>vfd := v, unresponsive := True\<rparr>))
                        else (MAX_RETRIES D + 1, s3\<lparr>vfd := v\<rparr>)))
         else (retry_count, vTaskDelay VFD_RS485_POLL_RATE s2))"

text \<open>
  \<^verbatim>\<open>for (; retry_count < MAX_RETRIES; ++retry_count)\<close>: the result is
  \<^verbatim>\<open>retry_count\<close> when the loop is left, and the state.
\<close>

function retry_loop ::
  "driver \<Rightarrow> link \<Rightarrow> response_parser option \<Rightarrow> nat \<Rightarrow> machine \<Rightarrow> nat \<times> machine" where
  "retry_loop D L parser retry_count s =
     (if retry_count < MAX_RETRIES D
      then retry_loop D L parser (Suc (fst (attempt D L parser retry_count s)))
             (snd (attempt D L parser retry_count s))
      else (retry_count, s))"
  by pat_completeness auto
termination
proof (relation "measure (\<lambda>(D, L, parser, retry_count, s). MAX_RETRIES D - retry_count)")
  show "wf (measure (\<lambda>(D, L, parser, retry_count, s). MAX_RETRIES D - retry_count))"
    by simp
next
  fix D :: driver and L :: link and parser :: "response_parser option"
    and retry_count :: nat and s :: machine
  assume lt: "retry_count < MAX_RETRIES D"
  have "retry_count \<le> fst (attempt D L parser retry_count s)"
    using lt by (simp add: attempt_def Let_def split: prod.splits option.splits)
  with lt show "((D, L, parser, Suc (fst (attempt D L parser retry_count s)),
                  snd (attempt D L parser retry_count s)),
                 (D, L, parser, retry_count, s))
                \<in> measure (\<lambda>(D, L, parser, retry_count, s). MAX_RETRIES D - retry_count)"
    by simp
qed

text \<open>
  What follows the choice of a command in an iteration: the checksum is appended, the
  retry loop runs, and the retry ceiling is tested.
\<close>

definition ceiling_check :: "driver \<Rightarrow> nat \<Rightarrow> machine \<Rightarrow> machine" where
  "ceiling_check D retry_count s =
     (if retry_count = MAX_RETRIES D then
        (if \<not> unresponsive s then
           let s1 = emit (MsgInt ''Spindle RS485 Unresponsive %d'' (rx_length (next_cmd s))) s;
               s2 = (if critical (next_cmd s1)
                     then emit ExecAlarmSpindleControl
                            (grbl_msg_sendf ''Critical Spindle RS485 Unresponsive'' s1)
                     else s1)
           in s2\<lparr>unresponsive := True\<rparr>
         else s)
      else s)"

definition transaction :: "driver \<Rightarrow> link \<Rightarrow> response_parser option \<Rightarrow> machine \<Rightarrow> machine" where
  "transaction D L parser s =
     (let s1 = s\<lparr>next_cmd := add_crc (next_cmd s)\<rparr>;
          (retry_count, s2) = retry_loop D L parser 0 s1
      in ceiling_check D retry_count s2)"

text \<open>One iteration of \<^verbatim>\<open>while (true)\<close> in \<^verbatim>\<open>vfd_cmd_task\<close>.\<close>

definition vfd_cmd_task_step :: "driver \<Rightarrow> link \<Rightarrow> machine \<Rightarrow> machine" where
  "vfd_cmd_task_step D L s =
     (case choose_cmd D s of
        ((parser, go), s1) \<Rightarrow>
          if \<not> go then s1
          else vTaskDelay VFD_RS485_POLL_RATE (transaction D L parser s1))"

subsection \<open>Observations on a trace\<close>

definition alarms :: "machine \<Rightarrow> nat" where
  "alarms s = count_list (trace s) ExecAlarmSpindleControl"

fun is_uart :: "event \<Rightarrow> bool" where
  "is_uart UartFlush = True"
| "is_uart (UartWrite frame) = True"
| "is_uart e = False"

definition bus_activity :: "machine \<Rightarrow> event list" where
  "bus_activity s = filter is_uart (trace s)"

text \<open>
  A link that never produces a valid response: whatever the buffer holds and whatever
  length of at least the two checksum bytes is expected, the response test fails on what
  a read leaves behind.
\<close>

definition link_never_valid :: "link \<Rightarrow> bool" where
  "link_never_valid L =
     (\<forall>s len. 2 \<le> len \<longrightarrow>
        \<not> response_ok (rx_message (snd (uart_read_bytes L s len)))
             (fst (uart_read_bytes L s len)) len)"

subsection \<open>A vendor, settings and states to run the model on\<close>

text \<open>
  A small vendor for evaluating the model on concrete inputs: six-byte requests, a
  maximum-speed request whose reply carries the speed in two bytes, no speed or direction
  read-back, and a status request whose parser accepts every reply. The second vendor has
  no maximum-speed request.
\<close>

definition example_max_rpm_parser :: response_parser where
  "example_max_rpm_parser rx v =
     (if rx ! 1 = 0x03
      then (True, v\<lparr>max_rpm := push_bit 8 (ucast (rx ! 3)) OR ucast (rx ! 4)\<rparr>)
      else (False, v))"

definition example_driver :: driver where
  "example_driver =
     \<lparr>MAX_RETRIES = 3,
      VFD_RS485_MAX_MSG_SIZE = 16,
      direction_command = (\<lambda>v mode cmd.
         cmd\<lparr>tx_length := 6, rx_length := 6,
             msg := (msg cmd)[1 := 0x06, 2 := 0x20, 3 := 0x00, 4 := 0x00,
                              5 := (case mode of Disable \<Rightarrow> 0x06 | Cw \<Rightarrow> 0x12 | Ccw \<Rightarrow> 0x22)]\<rparr>),
      set_speed_command = (\<lambda>v rpm cmd.
         cmd\<lparr>tx_length := 6, rx_length := 6,
             msg := (msg cmd)[1 := 0x06, 2 := 0x10, 3 := 0x00,
                              4 := ucast (drop_bit 8 rpm), 5 := ucast rpm]\<rparr>),
      get_max_rpm = (\<lambda>v cmd.
         (Some example_max_rpm_parser,
          cmd\<lparr>tx_length := 6, rx_length := 5,
              msg := (msg cmd)[1 := 0x03, 2 := 0xB0, 3 := 0x05, 4 := 0x00, 5 := 0x02]\<rparr>)),
      get_current_rpm = (\<lambda>v cmd. (None, cmd)),
      get_current_direction = (\<lambda>v cmd. (None, cmd)),
      get_status_ok = (\<lambda>v cmd.
         (Some (\<lambda>rx v. (True, v)),
          cmd\<lparr>tx_length := 6, rx_length := 5,
              msg := (msg cmd)[1 := 0x03, 2 := 0x30, 3 := 0x00, 4 := 0x00, 5 := 0x01]\<rparr>))\<rparr>"

definition plain_driver :: driver where
  "plain_driver = example_driver\<lparr>get_max_rpm := (\<lambda>v cmd. (None, cmd))\<rparr>"

definition example_settings :: settings where
  "example_settings =
     \<lparr>VFD_RS485_TXD_PIN = Some 17, VFD_RS485_RXD_PIN = Some 4, VFD_RS485_RTS_PIN = Some 16,
      laser_mode = False, rpm_min = 100, rpm_max = 1000,
      uart_param_config_ok = True, uart_set_pin_ok = True,
      uart_driver_install_ok = True, uart_set_mode_ok = True\<rparr>"

definition no_txd_settings :: settings where
  "no_txd_settings = example_settings\<lparr>VFD_RS485_TXD_PIN := None\<rparr>"

text \<open>The state at power-on, before \<^verbatim>\<open>init\<close>, with the override at 100 percent.\<close>

definition power_on :: machine where
  "power_on =
     \<lparr>vfd = \<lparr>vfd_ok = False, task_running = False, is_reversable = False, use_delays = False,
             txd_pin = 0, rxd_pin = 0, rts_pin = 0, min_rpm = 0, max_rpm = 0,
             current_rpm = 0, current_state = Disable\<rparr>,
      sys_abort = False, sys_state = Idle, sys_spindle_speed_ovr = 100,
      sys_spindle_speed = 0, sys_report_ovr_counter = 0,
      vfd_cmd_queue = [], unresponsive = False, pollidx = 0,
      next_cmd = \<lparr>critical = False, tx_length = 0, rx_length = 0, msg = replicate 16 0\<rparr>,
      rx_message = replicate 16 0, uart_reads = 0, trace = []\<rparr>"

definition ready :: machine where
  "ready = init example_settings power_on"

definition running :: machine where
  "running = set_state example_driver ready Cw 500"

text \<open>The link on which every read times out.\<close>

definition silent_link :: link where
  "silent_link n = []"

text \<open>An initialised machine whose command queue is full.\<close>

definition full_machine :: machine where
  "full_machine = ready\<lparr>vfd_cmd_queue := replicate 10 (local_cmd example_driver)\<rparr>"

text \<open>An initialised machine turning clockwise at speed 0, with sys.spindle_speed 0.\<close>

definition idle_cw :: machine where
  "idle_cw = set_state example_driver ready Cw 0"

text \<open>
  An initialised machine after its first task iteration, with the maximum speed unknown
  and a speed command waiting in the queue; the same machine before its first iteration;
  and the state of the task once it has chosen the envelope to send from the former.
\<close>

definition polled :: machine where
  "polled = ready\<lparr>pollidx := 1, vfd := (vfd ready)\<lparr>max_rpm := 0\<rparr>,
       vfd_cmd_queue := [\<lparr>critical = False, tx_length = 6, rx_length = 6,
                          msg = [1, 6, 16, 0, 1, 244, 0, 0, 0, 0, 0, 0, 0, 0, 0, 0]\<rparr>]\<rparr>"

definition first_iteration :: machine where
  "first_iteration = polled\<lparr>pollidx := 0\<rparr>"

definition discovery :: machine where
  "discovery = snd (choose_cmd example_driver polled)"

text \<open>
  A link on which every read brings the same well-formed frame, an exception reply
  (function code \<open>0x83\<close>) with a correct checksum.
\<close>

definition error_reply_link :: link where
  "error_reply_link n = [0x01, 0x83, 0x02, 0x00, 0x00, 0x91, 0x84]"

text \<open>
  The state of the task when the checksum has been appended to that envelope, and the
  read of one attempt: what \<^verbatim>\<open>uart_read_bytes\<close> returns and leaves behind after the
  frame has been flushed and written.
\<close>

definition discovery_framed :: machine where
  "discovery_framed = discovery\<lparr>next_cmd := add_crc (next_cmd discovery)\<rparr>"

definition attempt_read :: "link \<Rightarrow> machine \<Rightarrow> nat \<times> machine" where
  "attempt_read L s =
     uart_read_bytes L (emit (UartWrite (tx_frame (next_cmd s))) (emit UartFlush s))
       (rx_length (next_cmd s))"

subsection \<open>Checksum: helper lemmas\<close>

lemma crc_step:
  "(if c AND 0x0001 \<noteq> 0 then drop_bit 1 c XOR 0xA001 else drop_bit 1 c) = spec_crc_shift (c::u16)"
proof -
  have "(c AND 1 \<noteq> 0) = bit c 0"
    by (simp add: and_one_eq bit_0 mod_2_eq_odd)
  then show ?thesis by (simp add: spec_crc_shift_def)
qed

lemma crc_bit_loop_spec: "crc_bit_loop i c = (spec_crc_shift ^^ i) c"
proof (induction i arbitrary: c)
  case 0
  show ?case by simp
next
  case (Suc i)
  have "crc_bit_loop (Suc i) c = crc_bit_loop i (spec_crc_shift c)"
    by (simp only: crc_bit_loop.simps crc_step)
  also have "\<dots> = (spec_crc_shift ^^ i) (spec_crc_shift c)"
    by (rule Suc.IH)
  also have "\<dots> = (spec_crc_shift ^^ Suc i) c"
    by (simp add: funpow_swap1)
  finally show ?case .
qed

lemma crc_byte_loop_spec:
  "crc_byte_loop bs c = fold (\<lambda>b c. (spec_crc_shift ^^ 8) (c XOR ucast b)) bs c"
  by (induction bs arbitrary: c) (simp_all add: crc_bit_loop_spec)

lemma ff_mask: "(0xFF :: u16) = mask 8"
  by (simp add: mask_eq_exp_minus_1)

lemma ff00_mask: "(0xFF00 :: u16) = push_bit 8 (mask 8)"
  by (simp add: mask_eq_exp_minus_1)

lemma crc_hi_byte: "ucast (ucast (crc_hi c) :: u8) = crc_hi c"
  unfolding crc_hi_def ff00_mask
  by (rule bit_word_eqI) (auto simp add: bit_simps)

lemma crc_lo_byte: "ucast (ucast (crc_lo c) :: u8) = crc_lo c"
  unfolding crc_lo_def ff_mask
  by (rule bit_word_eqI) (auto simp add: bit_simps)

lemma ModRTU_CRC_append: "ModRTU_CRC (seq @ rest) (length seq) = ModRTU_CRC seq (length seq)"
  by (simp add: ModRTU_CRC_def)

lemma crc_check_appended:
  "crc_check (seq @ [ucast (crc_lo (ModRTU_CRC seq (length seq))),
                     ucast (crc_hi (ModRTU_CRC seq (length seq)))])
     (length seq + 2) (length seq + 2)"
  by (simp add: crc_check_def ModRTU_CRC_append nth_append crc_hi_byte crc_lo_byte)

text \<open>
  What \<^verbatim>\<open>add_crc\<close> puts on the wire when the two checksum bytes fit into the buffer:
  the first \<^verbatim>\<open>tx_length\<close> bytes, then the low byte, then the high byte.
\<close>

lemma add_crc_frame:
  assumes "tx_length cmd + 2 \<le> length (msg cmd)"
  shows "tx_frame (add_crc cmd) =
           take (tx_length cmd) (msg cmd) @
             [ucast (crc_lo (ModRTU_CRC (msg cmd) (tx_length cmd))),
              ucast (crc_hi (ModRTU_CRC (msg cmd) (tx_length cmd)))]"
proof -
  let ?n = "tx_length cmd"
  let ?lo = "ucast (crc_lo (ModRTU_CRC (msg cmd) ?n)) :: u8"
  let ?hi = "ucast (crc_hi (ModRTU_CRC (msg cmd) ?n)) :: u8"
  have f: "tx_frame (add_crc cmd) = take (?n + 2) ((msg cmd)[Suc ?n := ?hi, ?n := ?lo])"
    by (simp add: tx_frame_def add_crc_def Let_def)
  have "length (take (?n + 2) ((msg cmd)[Suc ?n := ?hi, ?n := ?lo])) = ?n + 2"
    using assms by simp
  moreover have "\<And>i. i < ?n + 2 \<Longrightarrow>
      take (?n + 2) ((msg cmd)[Suc ?n := ?hi, ?n := ?lo]) ! i = (take ?n (msg cmd) @ [?lo, ?hi]) ! i"
    using assms by (auto simp add: nth_append nth_list_update less_Suc_eq)
  ultimately have "take (?n + 2) ((msg cmd)[Suc ?n := ?hi, ?n := ?lo]) = take ?n (msg cmd) @ [?lo, ?hi]"
    using assms by (intro nth_equalityI) simp_all
  with f show ?thesis by simp
qed

lemma ModRTU_CRC_example: "ModRTU_CRC [0x01, 0x03, 0x00, 0x00, 0x00, 0x01] 6 = 0x0A84"
  by code_simp

subsection \<open>Checksum: the claim\<close>

text \<open>
  C4. \<^verbatim>\<open>ModRTU_CRC\<close> is the table-free Modbus-RTU CRC-16 of section 4.1 (start from
  \<open>0xFFFF\<close>; per byte, XOR into the low byte, then eight times shift right, with XOR
  \<open>0xA001\<close> when bit 0 was set). For every byte sequence, the frame made of the sequence,
  the checksum's low byte and then its high byte passes the checksum comparisons of the
  task's response test, which recompute the checksum over all bytes but the last two. The
  whole response test, which also compares the length and the address byte, accepts that
  frame exactly when its first byte is the bus address.
\<close>

theorem ModRTU_CRC_roundtrip:
  "ModRTU_CRC buf msg_len = spec_checksum (take msg_len buf) \<and>
   crc_check (seq @ [ucast (crc_lo (ModRTU_CRC seq (length seq))),
                     ucast (crc_hi (ModRTU_CRC seq (length seq)))])
     (length seq + 2) (length seq + 2) \<and>
   response_ok (seq @ [ucast (crc_lo (ModRTU_CRC seq (length seq))),
                       ucast (crc_hi (ModRTU_CRC seq (length seq)))])
     (length seq + 2) (length seq + 2) =
   ((seq @ [ucast (crc_lo (ModRTU_CRC seq (length seq))),
            ucast (crc_hi (ModRTU_CRC seq (length seq)))]) ! 0 = VFD_RS485_ADDR)"
proof (intro conjI)
  show "ModRTU_CRC buf msg_len = spec_checksum (take msg_len buf)"
    by (simp add: ModRTU_CRC_def spec_checksum_def crc_byte_loop_spec)
  show "crc_check (seq @ [ucast (crc_lo (ModRTU_CRC seq (length seq))),
                     ucast (crc_hi (ModRTU_CRC seq (length seq)))])
     (length seq + 2) (length seq + 2)"
    by (rule crc_check_appended)
  then show "response_ok (seq @ [ucast (crc_lo (ModRTU_CRC seq (length seq))),
                       ucast (crc_hi (ModRTU_CRC seq (length seq)))])
     (length seq + 2) (length seq + 2) =
   ((seq @ [ucast (crc_lo (ModRTU_CRC seq (length seq))),
            ucast (crc_hi (ModRTU_CRC seq (length seq)))]) ! 0 = VFD_RS485_ADDR)"
    by (simp add: response_ok_def)
qed

subsection \<open>Setting the speed\<close>

lemma apply_override_zero: "apply_override 0 ovr = 0"
  by (simp add: apply_override_def)

lemma apply_limits_le: "apply_limits lo hi rpm \<le> hi"
  by (auto simp add: apply_limits_def)

lemma set_rpm_ok:
  assumes "vfd_ok (vfd s)"
  shows "fst (set_rpm D s x) =
           apply_limits (min_rpm (vfd s)) (max_rpm (vfd s)) (apply_override x (sys_spindle_speed_ovr s))"
    and "vfd (snd (set_rpm D s x)) =
           (vfd s)\<lparr>current_rpm := apply_limits (min_rpm (vfd s)) (max_rpm (vfd s))
                                    (apply_override x (sys_spindle_speed_ovr s))\<rparr>"
    and "sys_spindle_speed (snd (set_rpm D s x)) =
           apply_limits (min_rpm (vfd s)) (max_rpm (vfd s)) (apply_override x (sys_spindle_speed_ovr s))"
  using assms
  by (auto simp add: set_rpm_def Let_def xQueueSend_def grbl_msg_sendf_def split: prod.splits)

lemma set_rpm_repeat:
  assumes "vfd_ok (vfd s)"
  shows "set_rpm D (snd (set_rpm D s x)) x = (fst (set_rpm D s x), snd (set_rpm D s x))"
  using assms
  by (auto simp add: set_rpm_def Let_def xQueueSend_def grbl_msg_sendf_def split: prod.splits)

text \<open>
  C3. On an initialised device, the value \<^verbatim>\<open>set_rpm\<close> leaves in the cached
  \<^verbatim>\<open>_current_rpm\<close> (which it also returns) lies between 0 and \<^verbatim>\<open>_max_rpm\<close>. With
  \<open>rpm\<close> the requested value after override scaling: if \<^verbatim>\<open>_min_rpm >= _max_rpm\<close> the
  value is \<^verbatim>\<open>_max_rpm\<close>; otherwise a nonzero \<open>rpm\<close> of at most \<^verbatim>\<open>_min_rpm\<close> is
  raised to \<^verbatim>\<open>_min_rpm\<close>, and \<open>rpm\<close> is kept whenever it lies between the two bounds
  or is 0.
\<close>

theorem set_rpm_clamped:
  assumes "vfd_ok (vfd s)"
  shows "let lo = min_rpm (vfd s); hi = max_rpm (vfd s);
             rpm = apply_override x (sys_spindle_speed_ovr s);
             r = current_rpm (vfd (snd (set_rpm D s x)))
         in 0 \<le> r \<and> r \<le> hi \<and> fst (set_rpm D s x) = r \<and>
            max_rpm (vfd (snd (set_rpm D s x))) = hi \<and>
            (lo \<ge> hi \<longrightarrow> r = hi) \<and>
            (lo < hi \<and> rpm \<noteq> 0 \<and> rpm \<le> lo \<longrightarrow> r = lo) \<and>
            (lo < hi \<and> (lo \<le> rpm \<and> rpm \<le> hi \<or> rpm = 0) \<longrightarrow> r = rpm)"
proof -
  let ?lo = "min_rpm (vfd s)" and ?hi = "max_rpm (vfd s)"
  let ?rpm = "apply_override x (sys_spindle_speed_ovr s)"
  have r: "current_rpm (vfd (snd (set_rpm D s x))) = apply_limits ?lo ?hi ?rpm"
    and m: "max_rpm (vfd (snd (set_rpm D s x))) = ?hi"
    and f: "fst (set_rpm D s x) = apply_limits ?lo ?hi ?rpm"
    using set_rpm_ok [OF assms, of D x] by simp_all
  have 1: "apply_limits ?lo ?hi ?rpm \<le> ?hi" by (rule apply_limits_le)
  have 2: "?lo \<ge> ?hi \<longrightarrow> apply_limits ?lo ?hi ?rpm = ?hi"
    by (simp add: apply_limits_def)
  have 3: "?lo < ?hi \<and> ?rpm \<noteq> 0 \<and> ?rpm \<le> ?lo \<longrightarrow> apply_limits ?lo ?hi ?rpm = ?lo"
    by (auto simp add: apply_limits_def)
  have 4: "?lo < ?hi \<and> (?lo \<le> ?rpm \<and> ?rpm \<le> ?hi \<or> ?rpm = 0) \<longrightarrow> apply_limits ?lo ?hi ?rpm = ?rpm"
    by (auto simp add: apply_limits_def)
  show ?thesis
    unfolding Let_def r m f using 1 2 3 4 by simp
qed

theorem set_rpm_clamped_witness:
  "vfd_ok (vfd ready) \<and> current_rpm (vfd (snd (set_rpm example_driver ready 50))) = 100 \<and>
   fst (set_rpm example_driver ready 50) = 100 \<and>
   length (vfd_cmd_queue (snd (set_rpm example_driver ready 50))) = 1"
proof -
  have ok: "vfd_ok (vfd ready)" by code_simp
  have ev: "min_rpm (vfd ready) = 100" "max_rpm (vfd ready) = 1000"
    "apply_override 50 (sys_spindle_speed_ovr ready) = 50"
    "length (vfd_cmd_queue (snd (set_rpm example_driver ready 50))) = 1"
    by code_simp+
  show ?thesis
    using set_rpm_clamped [OF ok, where D = example_driver and x = 50] ok ev
    by (simp add: Let_def)
qed

text \<open>
  C10. With the command queue full, \<^verbatim>\<open>set_rpm\<close> with a clamped value \<open>r\<close> other than
  the cached \<^verbatim>\<open>_current_rpm\<close> still stores \<open>r\<close> in \<^verbatim>\<open>_current_rpm\<close> and in
  \<^verbatim>\<open>sys.spindle_speed\<close> and returns \<open>r\<close>; the failed send only adds the message
  "VFD Queue Full" and the queue is as before. The same call made again at once returns
  \<open>r\<close> and changes nothing: the dropped command is not sent again.
\<close>

theorem set_rpm_queue_full:
  assumes "vfd_ok (vfd s)"
    and "length (vfd_cmd_queue s) = VFD_RS485_QUEUE_SIZE"
    and "r = apply_limits (min_rpm (vfd s)) (max_rpm (vfd s)) (apply_override x (sys_spindle_speed_ovr s))"
    and "r \<noteq> current_rpm (vfd s)"
  shows "set_rpm D s x =
           (r, s\<lparr>sys_spindle_speed := r, vfd := (vfd s)\<lparr>current_rpm := r\<rparr>,
                 trace := trace s @ [Msg ''VFD Queue Full'']\<rparr>) \<and>
         vfd_cmd_queue (snd (set_rpm D s x)) = vfd_cmd_queue s \<and>
         set_rpm D (snd (set_rpm D s x)) x = (r, snd (set_rpm D s x))"
proof -
  have 1: "set_rpm D s x =
           (r, s\<lparr>sys_spindle_speed := r, vfd := (vfd s)\<lparr>current_rpm := r\<rparr>,
                 trace := trace s @ [Msg ''VFD Queue Full'']\<rparr>)"
    using assms by (simp add: set_rpm_def Let_def xQueueSend_def grbl_msg_sendf_def)
  have 2: "set_rpm D (snd (set_rpm D s x)) x = (r, snd (set_rpm D s x))"
    using set_rpm_repeat [OF assms(1), of D x] 1 by simp
  show ?thesis using 1 2 by simp
qed

theorem set_rpm_queue_full_witness:
  "vfd_ok (vfd full_machine) \<and> length (vfd_cmd_queue full_machine) = VFD_RS485_QUEUE_SIZE \<and>
   (500::u32) \<noteq> current_rpm (vfd full_machine) \<and>
   fst (set_rpm example_driver full_machine 500) = 500 \<and>
   current_rpm (vfd (snd (set_rpm example_driver full_machine 500))) = 500 \<and>
   sys_spindle_speed (snd (set_rpm example_driver full_machine 500)) = 500 \<and>
   vfd_cmd_queue (snd (set_rpm example_driver full_machine 500)) = vfd_cmd_queue full_machine \<and>
   set_rpm example_driver (snd (set_rpm example_driver full_machine 500)) 500 =
     (500, snd (set_rpm example_driver full_machine 500))"
proof -
  have ok: "vfd_ok (vfd full_machine)" by code_simp
  have full: "length (vfd_cmd_queue full_machine) = VFD_RS485_QUEUE_SIZE" by code_simp
  have r: "(500::u32) = apply_limits (min_rpm (vfd full_machine)) (max_rpm (vfd full_machine))
              (apply_override 500 (sys_spindle_speed_ovr full_machine))" by code_simp
  have ne: "(500::u32) \<noteq> current_rpm (vfd full_machine)" by code_simp
  note t = set_rpm_queue_full [OF ok full r ne, where D = example_driver]
  have a: "fst (set_rpm example_driver full_machine 500) = 500"
    and b: "current_rpm (vfd (snd (set_rpm example_driver full_machine 500))) = 500"
    and c: "sys_spindle_speed (snd (set_rpm example_driver full_machine 500)) = 500"
    using t by simp_all
  show ?thesis
    using ok full ne a b c t by blast
qed

text \<open>
  C9, as the code has it. On an initialised device with the override unchanged, the
  second of two \<^verbatim>\<open>set_rpm(x)\<close> calls in a row finds the clamped value \<open>r\<close> in the cache
  and changes nothing. The two calls together enqueue one envelope, the speed command for
  \<open>r\<close>, when \<open>r\<close> differs from the \<^verbatim>\<open>_current_rpm\<close> cached before the first call and
  the queue is not full, and none otherwise.
\<close>

theorem set_rpm_twice:
  assumes "vfd_ok (vfd s)"
  shows "let r = apply_limits (min_rpm (vfd s)) (max_rpm (vfd s)) (apply_override x (sys_spindle_speed_ovr s));
             s1 = snd (set_rpm D s x);
             s2 = snd (set_rpm D s1 x)
         in s2 = s1 \<and> fst (set_rpm D s1 x) = r \<and>
            vfd_cmd_queue s2 =
              (if r \<noteq> current_rpm (vfd s) \<and> length (vfd_cmd_queue s) < VFD_RS485_QUEUE_SIZE
               then vfd_cmd_queue s @
                      [(set_speed_command D ((vfd s)\<lparr>current_rpm := r\<rparr>) r (local_cmd D))\<lparr>critical := False\<rparr>]
               else vfd_cmd_queue s)"
proof -
  let ?r = "apply_limits (min_rpm (vfd s)) (max_rpm (vfd s)) (apply_override x (sys_spindle_speed_ovr s))"
  have rep: "set_rpm D (snd (set_rpm D s x)) x = (fst (set_rpm D s x), snd (set_rpm D s x))"
    by (rule set_rpm_repeat [OF assms])
  have f: "fst (set_rpm D s x) = ?r"
    using assms by (auto simp add: set_rpm_def Let_def split: prod.splits)
  have q: "vfd_cmd_queue (snd (set_rpm D s x)) =
              (if ?r \<noteq> current_rpm (vfd s) \<and> length (vfd_cmd_queue s) < VFD_RS485_QUEUE_SIZE
               then vfd_cmd_queue s @
                      [(set_speed_command D ((vfd s)\<lparr>current_rpm := ?r\<rparr>) ?r (local_cmd D))\<lparr>critical := False\<rparr>]
               else vfd_cmd_queue s)"
    using assms by (simp add: set_rpm_def Let_def xQueueSend_def grbl_msg_sendf_def)
  show ?thesis unfolding Let_def using rep f q by simp
qed

theorem set_rpm_twice_witness:
  "vfd_ok (vfd ready) \<and>
   snd (set_rpm example_driver (snd (set_rpm example_driver ready 50)) 50) =
     snd (set_rpm example_driver ready 50) \<and>
   length (vfd_cmd_queue (snd (set_rpm example_driver (snd (set_rpm example_driver ready 50)) 50))) = 1"
proof -
  have ok: "vfd_ok (vfd ready)" by code_simp
  have ev: "apply_limits (min_rpm (vfd ready)) (max_rpm (vfd ready))
              (apply_override 50 (sys_spindle_speed_ovr ready)) = 100"
     "current_rpm (vfd ready) = 0" "vfd_cmd_queue ready = []"
    by code_simp+
  show ?thesis
    using set_rpm_twice [OF ok, where D = example_driver and x = 50] ok ev
    by (auto simp add: Let_def VFD_RS485_QUEUE_SIZE_def)
qed

text \<open>
  The claim as the specification states it, exactly one envelope after two calls, fails
  on a freshly initialised device for \<open>x = 0\<close>: the clamped value is the cached 0 and
  both calls return before enqueuing.
\<close>

theorem set_rpm_twice_counterexample:
  "vfd_ok (vfd ready) \<and> vfd_cmd_queue ready = [] \<and>
   vfd_cmd_queue (snd (set_rpm example_driver (snd (set_rpm example_driver ready 0)) 0)) = []"
  by code_simp

subsection \<open>Setting the state, and stopping\<close>

lemma set_mode_Disable:
  assumes "vfd_ok (vfd s)"
  shows "set_mode D s Disable crit =
           (True, s\<lparr>vfd_cmd_queue := [(direction_command D (vfd s) Disable (local_cmd D))\<lparr>critical := crit\<rparr>],
                    vfd := (vfd s)\<lparr>current_state := Disable\<rparr>\<rparr>)"
  using assms
  by (simp add: set_mode_def Let_def xQueueReset_def xQueueSend_def VFD_RS485_QUEUE_SIZE_def)

lemma set_rpm_after_reset:
  assumes "vfd_ok (vfd s)" and "vfd_cmd_queue s = [c]"
  shows "snd (set_rpm D s x) =
           (let r = apply_limits (min_rpm (vfd s)) (max_rpm (vfd s)) (apply_override x (sys_spindle_speed_ovr s))
            in if r = current_rpm (vfd s) then s\<lparr>sys_spindle_speed := r\<rparr>
               else s\<lparr>sys_spindle_speed := r, vfd := (vfd s)\<lparr>current_rpm := r\<rparr>,
                      vfd_cmd_queue := [c, (set_speed_command D ((vfd s)\<lparr>current_rpm := r\<rparr>) r (local_cmd D))\<lparr>critical := False\<rparr>]\<rparr>)"
  using assms
  by (simp add: set_rpm_def Let_def xQueueSend_def VFD_RS485_QUEUE_SIZE_def)

lemma set_state_Disable:
  assumes "vfd_ok (vfd s)" and "\<not> sys_abort s" and "current_state (vfd s) \<noteq> Disable"
  shows "set_state D s Disable 0 =
     (let r = apply_limits (min_rpm (vfd s)) (max_rpm (vfd s)) 0;
          mode_cmd = (direction_command D (vfd s) Disable (local_cmd D))\<lparr>critical := (sys_state s = Cycle)\<rparr>;
          v = (vfd s)\<lparr>current_state := Disable, current_rpm := r\<rparr>
      in s\<lparr>vfd := v, sys_spindle_speed := 0, sys_report_ovr_counter := 0,
            vfd_cmd_queue := (if r = current_rpm (vfd s) then [mode_cmd]
                              else [mode_cmd, (set_speed_command D v r (local_cmd D))\<lparr>critical := False\<rparr>])\<rparr>)"
proof -
  let ?mc = "(direction_command D (vfd s) Disable (local_cmd D))\<lparr>critical := (sys_state s = Cycle)\<rparr>"
  let ?sa = "s\<lparr>vfd_cmd_queue := [?mc], vfd := (vfd s)\<lparr>current_state := Disable\<rparr>\<rparr>"
  have sm: "set_mode D s Disable (sys_state s = Cycle) = (True, ?sa)"
    by (rule set_mode_Disable [OF assms(1)])
  have ok: "vfd_ok (vfd ?sa)" and q: "vfd_cmd_queue ?sa = [?mc]"
    using assms(1) by simp_all
  note sr = set_rpm_after_reset [OF ok q, of D 0]
  show ?thesis
    using assms(2,3)
    by (simp add: set_state_def Let_def sm sr apply_override_zero emit_def)
qed

text \<open>
  C2, as the code has it. On an initialised device with no abort active and a cached
  state other than \<^verbatim>\<open>Disable\<close>, after \<^verbatim>\<open>set_state(SpindleState::Disable, 0)\<close> the
  queue holds nothing of what was pending: it was cleared before the disable envelope
  (critical when the machine is in \<^verbatim>\<open>State::Cycle\<close>) was enqueued. The disable envelope
  is alone in the queue when the clamped value of 0 equals the cached \<^verbatim>\<open>_current_rpm\<close>;
  otherwise the speed envelope of \<^verbatim>\<open>set_rpm\<close> follows it and the queue holds two.
\<close>

theorem set_state_Disable_queue:
  assumes "vfd_ok (vfd s)" and "\<not> sys_abort s" and "current_state (vfd s) \<noteq> Disable"
  shows "vfd_cmd_queue (set_state D s Disable 0) =
     (let r = apply_limits (min_rpm (vfd s)) (max_rpm (vfd s)) 0;
          mode_cmd = (direction_command D (vfd s) Disable (local_cmd D))\<lparr>critical := (sys_state s = Cycle)\<rparr>;
          v = (vfd s)\<lparr>current_state := Disable, current_rpm := r\<rparr>
      in if r = current_rpm (vfd s) then [mode_cmd]
         else [mode_cmd, (set_speed_command D v r (local_cmd D))\<lparr>critical := False\<rparr>])"
  by (simp add: set_state_Disable [OF assms] Let_def)

theorem set_state_Disable_queue_witness:
  "vfd_ok (vfd idle_cw) \<and> \<not> sys_abort idle_cw \<and> current_state (vfd idle_cw) \<noteq> Disable \<and>
   length (vfd_cmd_queue idle_cw) = 1 \<and>
   length (vfd_cmd_queue (set_state example_driver idle_cw Disable 0)) = 1"
proof -
  have ok: "vfd_ok (vfd idle_cw)" and na: "\<not> sys_abort idle_cw"
    and st: "current_state (vfd idle_cw) \<noteq> Disable"
    by code_simp+
  have ev: "apply_limits (min_rpm (vfd idle_cw)) (max_rpm (vfd idle_cw)) 0 = current_rpm (vfd idle_cw)"
    "length (vfd_cmd_queue idle_cw) = 1"
    by code_simp+
  show ?thesis
    using set_state_Disable_queue [OF ok na st, where D = example_driver] ok na st ev
    by (simp add: Let_def)
qed

text \<open>
  The claim as the specification states it, exactly one envelope afterwards, fails on a
  spindle running clockwise at 500: the disable envelope is followed by the envelope that
  sets the speed to 0.
\<close>

theorem set_state_Disable_queue_counterexample:
  "vfd_ok (vfd running) \<and> \<not> sys_abort running \<and> current_state (vfd running) = Cw \<and>
   current_rpm (vfd running) = 500 \<and>
   vfd_cmd_queue (set_state example_driver running Disable 0) =
     [\<lparr>critical = False, tx_length = 6, rx_length = 6,
       msg = [1, 6, 32, 0, 0, 6, 0, 0, 0, 0, 0, 0, 0, 0, 0, 0]\<rparr>,
      \<lparr>critical = False, tx_length = 6, rx_length = 6,
       msg = [1, 6, 16, 0, 0, 0, 0, 0, 0, 0, 0, 0, 0, 0, 0, 0]\<rparr>]"
  by code_simp

text \<open>
  C8, as the code has it. On an initialised device \<^verbatim>\<open>stop()\<close> is
  \<^verbatim>\<open>set_mode(SpindleState::Disable, false)\<close>: it clears the queue, enqueues one
  non-critical disable envelope and leaves the cached state \<^verbatim>\<open>Disable\<close>; the cached
  \<^verbatim>\<open>_current_rpm\<close> and \<^verbatim>\<open>sys.spindle_speed\<close> keep their values. It agrees with
  \<^verbatim>\<open>set_state(SpindleState::Disable, 0)\<close> on the cached state, on the queue up to the
  criticality flag, on \<^verbatim>\<open>_current_rpm\<close> and on \<^verbatim>\<open>sys.spindle_speed\<close> when no abort
  is active, the cached state is not \<^verbatim>\<open>Disable\<close> already, \<^verbatim>\<open>_current_rpm\<close> is the
  clamped value of 0 and \<^verbatim>\<open>sys.spindle_speed\<close> is 0.
\<close>

theorem stop_vs_set_state:
  assumes "vfd_ok (vfd s)"
  shows "stop D s =
           s\<lparr>vfd_cmd_queue := [(direction_command D (vfd s) Disable (local_cmd D))\<lparr>critical := False\<rparr>],
             vfd := (vfd s)\<lparr>current_state := Disable\<rparr>\<rparr> \<and>
         (\<not> sys_abort s \<and> current_state (vfd s) \<noteq> Disable \<and>
          current_rpm (vfd s) = apply_limits (min_rpm (vfd s)) (max_rpm (vfd s)) 0 \<and>
          sys_spindle_speed s = 0 \<longrightarrow>
            current_state (vfd (set_state D s Disable 0)) = current_state (vfd (stop D s)) \<and>
            current_state (vfd (stop D s)) = Disable \<and>
            map (\<lambda>c. c\<lparr>critical := False\<rparr>) (vfd_cmd_queue (set_state D s Disable 0)) =
              vfd_cmd_queue (stop D s) \<and>
            current_rpm (vfd (set_state D s Disable 0)) = current_rpm (vfd (stop D s)) \<and>
            sys_spindle_speed (set_state D s Disable 0) = sys_spindle_speed (stop D s))"
proof (intro conjI impI)
  show st: "stop D s =
           s\<lparr>vfd_cmd_queue := [(direction_command D (vfd s) Disable (local_cmd D))\<lparr>critical := False\<rparr>],
             vfd := (vfd s)\<lparr>current_state := Disable\<rparr>\<rparr>"
    by (simp add: stop_def set_mode_Disable [OF assms])
  assume h: "\<not> sys_abort s \<and> current_state (vfd s) \<noteq> Disable \<and>
          current_rpm (vfd s) = apply_limits (min_rpm (vfd s)) (max_rpm (vfd s)) 0 \<and>
          sys_spindle_speed s = 0"
  then have na: "\<not> sys_abort s" and cs: "current_state (vfd s) \<noteq> Disable"
    and cr: "current_rpm (vfd s) = apply_limits (min_rpm (vfd s)) (max_rpm (vfd s)) 0"
    and sp: "sys_spindle_speed s = 0"
    by simp_all
  note ss = set_state_Disable [OF assms na cs, of D]
  show "current_state (vfd (set_state D s Disable 0)) = current_state (vfd (stop D s))"
    by (simp add: ss st Let_def)
  show "current_state (vfd (stop D s)) = Disable"
    by (simp add: st)
  show "map (\<lambda>c. c\<lparr>critical := False\<rparr>) (vfd_cmd_queue (set_state D s Disable 0)) =
              vfd_cmd_queue (stop D s)"
    using cr by (simp add: ss st Let_def)
  show "current_rpm (vfd (set_state D s Disable 0)) = current_rpm (vfd (stop D s))"
    using cr by (simp add: ss st Let_def)
  show "sys_spindle_speed (set_state D s Disable 0) = sys_spindle_speed (stop D s)"
    using sp by (simp add: ss st Let_def)
qed

theorem stop_vs_set_state_witness:
  "vfd_ok (vfd idle_cw) \<and> \<not> sys_abort idle_cw \<and> current_state (vfd idle_cw) \<noteq> Disable \<and>
   current_rpm (vfd idle_cw) = apply_limits (min_rpm (vfd idle_cw)) (max_rpm (vfd idle_cw)) 0 \<and>
   sys_spindle_speed idle_cw = 0 \<and>
   length (vfd_cmd_queue (stop example_driver idle_cw)) = 1 \<and>
   map (\<lambda>c. c\<lparr>critical := False\<rparr>) (vfd_cmd_queue (set_state example_driver idle_cw Disable 0)) =
     vfd_cmd_queue (stop example_driver idle_cw) \<and>
   current_rpm (vfd (set_state example_driver idle_cw Disable 0)) =
     current_rpm (vfd (stop example_driver idle_cw))"
proof -
  have ok: "vfd_ok (vfd idle_cw)" and na: "\<not> sys_abort idle_cw"
    and st: "current_state (vfd idle_cw) \<noteq> Disable"
    and cr: "current_rpm (vfd idle_cw) = apply_limits (min_rpm (vfd idle_cw)) (max_rpm (vfd idle_cw)) 0"
    and sp: "sys_spindle_speed idle_cw = 0"
    by code_simp+
  show ?thesis
    using stop_vs_set_state [OF ok, where D = example_driver] ok na st cr sp
    by simp
qed

text \<open>
  The claim as the specification states it fails on a spindle running clockwise at 500:
  \<^verbatim>\<open>stop()\<close> leaves one envelope and the speed 500 in both caches, while
  \<^verbatim>\<open>set_state(SpindleState::Disable, 0)\<close> leaves two envelopes and the speed 0.
\<close>

theorem stop_vs_set_state_counterexample:
  "vfd_ok (vfd running) \<and>
   length (vfd_cmd_queue (stop example_driver running)) = 1 \<and>
   length (vfd_cmd_queue (set_state example_driver running Disable 0)) = 2 \<and>
   current_rpm (vfd (stop example_driver running)) = 500 \<and>
   current_rpm (vfd (set_state example_driver running Disable 0)) = 0 \<and>
   sys_spindle_speed (stop example_driver running) = 500 \<and>
   sys_spindle_speed (set_state example_driver running Disable 0) = 0"
  by code_simp

subsection \<open>Operations on an uninitialised device\<close>

lemma bus_activity_emit_other [simp]:
  "\<not> is_uart e \<Longrightarrow> bus_activity (emit e s) = bus_activity s"
  by (simp add: bus_activity_def emit_def)

lemma bus_activity_msg [simp]: "bus_activity (grbl_msg_sendf t s) = bus_activity s"
  by (simp add: bus_activity_def grbl_msg_sendf_def)

lemma get_pins_and_settings_fails:
  assumes "VFD_RS485_TXD_PIN E = None \<or> VFD_RS485_RXD_PIN E = None \<or>
           VFD_RS485_RTS_PIN E = None \<or> laser_mode E"
  shows "\<not> fst (get_pins_and_settings E s)"
  using assms
  by (auto simp add: get_pins_and_settings_def Let_def split: prod.splits option.splits if_splits)

lemma get_pins_and_settings_keeps:
  "vfd_ok (vfd (snd (get_pins_and_settings E s))) = vfd_ok (vfd s) \<and>
   vfd_cmd_queue (snd (get_pins_and_settings E s)) = vfd_cmd_queue s \<and>
   uart_reads (snd (get_pins_and_settings E s)) = uart_reads s \<and>
   bus_activity (snd (get_pins_and_settings E s)) = bus_activity s \<and>
   current_state (vfd (snd (get_pins_and_settings E s))) = current_state (vfd s)"
  by (simp add: get_pins_and_settings_def Let_def grbl_msg_sendf_def bus_activity_def
      split: prod.splits option.splits)

lemma init_fails:
  assumes "VFD_RS485_TXD_PIN E = None \<or> VFD_RS485_RXD_PIN E = None \<or>
           VFD_RS485_RTS_PIN E = None \<or> laser_mode E"
  shows "\<not> vfd_ok (vfd (init E s))" and "vfd_cmd_queue (init E s) = vfd_cmd_queue s"
    and "uart_reads (init E s) = uart_reads s" and "bus_activity (init E s) = bus_activity s"
    and "current_state (vfd (init E s)) = current_state (vfd s)"
proof -
  let ?s0 = "grbl_msg_sendf ''Initializing RS485 VFD spindle'' (s\<lparr>vfd := (vfd s)\<lparr>vfd_ok := False\<rparr>\<rparr>)"
  let ?s1 = "snd (get_pins_and_settings E ?s0)"
  have f: "\<not> fst (get_pins_and_settings E ?s0)"
    by (rule get_pins_and_settings_fails [OF assms])
  then have i: "init E s = grbl_msg_sendf ''RS485 VFD spindle errors'' (?s1\<lparr>vfd := (vfd ?s1)\<lparr>vfd_ok := False\<rparr>\<rparr>)"
    by (simp add: init_def Let_def case_prod_beta)
  note k = get_pins_and_settings_keeps [of E ?s0]
  show "\<not> vfd_ok (vfd (init E s))" by (simp add: i grbl_msg_sendf_def)
  show "vfd_cmd_queue (init E s) = vfd_cmd_queue s" using k by (simp add: i grbl_msg_sendf_def)
  show "uart_reads (init E s) = uart_reads s" using k by (simp add: i grbl_msg_sendf_def)
  show "current_state (vfd (init E s)) = current_state (vfd s)"
    using k by (simp add: i grbl_msg_sendf_def)
  show "bus_activity (init E s) = bus_activity s"
    using k by (simp add: i) (simp add: bus_activity_def grbl_msg_sendf_def)
qed

lemma not_ok_set_state:
  assumes "\<not> vfd_ok (vfd s)"
  shows "vfd_cmd_queue (set_state D s st x) = vfd_cmd_queue s"
    and "uart_reads (set_state D s st x) = uart_reads s"
    and "bus_activity (set_state D s st x) = bus_activity s"
    and "sys_spindle_speed (set_state D s Cw x) = sys_spindle_speed s"
    and "vfd (set_state D s st x) = (if sys_abort s then vfd s else (vfd s)\<lparr>current_state := st\<rparr>)"
  using assms
  by (simp_all add: set_state_def set_mode_def set_rpm_def Let_def emit_def bus_activity_def)

text \<open>
  C7, as the code has it. An initialisation that finds a pin macro undefined or laser
  mode on leaves \<^verbatim>\<open>vfd_ok\<close> false, the queue as it was and the bus untouched.
  Afterwards \<^verbatim>\<open>set_mode\<close>, \<^verbatim>\<open>set_rpm\<close> and \<^verbatim>\<open>stop\<close> change nothing (and return
  false, 0 and nothing), and \<^verbatim>\<open>set_state(SpindleState::Cw, 500)\<close> enqueues nothing,
  writes and reads nothing on the bus and leaves \<^verbatim>\<open>vfd_ok\<close>, the speed bounds, the
  cached \<^verbatim>\<open>_current_rpm\<close> and \<^verbatim>\<open>sys.spindle_speed\<close> as they were; unless an abort
  is active it records the requested state in the cached \<^verbatim>\<open>_current_state\<close>.
\<close>

theorem uninitialised_no_ops:
  assumes "VFD_RS485_TXD_PIN E = None \<or> VFD_RS485_RXD_PIN E = None \<or>
           VFD_RS485_RTS_PIN E = None \<or> laser_mode E"
  shows "\<not> vfd_ok (vfd (init E s)) \<and>
         vfd_cmd_queue (init E s) = vfd_cmd_queue s \<and>
         bus_activity (init E s) = bus_activity s \<and>
         set_mode D (init E s) mode crit = (False, init E s) \<and>
         set_rpm D (init E s) x = (0, init E s) \<and>
         stop D (init E s) = init E s \<and>
         get_state (init E s) = current_state (vfd s) \<and>
         vfd_cmd_queue (set_state D (init E s) Cw 500) = vfd_cmd_queue (init E s) \<and>
         bus_activity (set_state D (init E s) Cw 500) = bus_activity (init E s) \<and>
         uart_reads (set_state D (init E s) Cw 500) = uart_reads (init E s) \<and>
         sys_spindle_speed (set_state D (init E s) Cw 500) = sys_spindle_speed (init E s) \<and>
         vfd (set_state D (init E s) Cw 500) =
           (if sys_abort (init E s) then vfd (init E s) else (vfd (init E s))\<lparr>current_state := Cw\<rparr>)"
proof -
  note f = init_fails [OF assms, of s]
  note n = not_ok_set_state [OF f(1)]
  show ?thesis
    using f n by (simp add: set_mode_def set_rpm_def stop_def get_state_def)
qed


theorem uninitialised_no_ops_witness:
  "VFD_RS485_TXD_PIN no_txd_settings = None \<and>
   \<not> vfd_ok (vfd (init no_txd_settings power_on)) \<and>
   vfd_cmd_queue (set_state example_driver (init no_txd_settings power_on) Cw 500) = [] \<and>
   bus_activity (set_state example_driver (init no_txd_settings power_on) Cw 500) = [] \<and>
   set_rpm example_driver (init no_txd_settings power_on) 500 = (0, init no_txd_settings power_on)"
proof -
  have h: "VFD_RS485_TXD_PIN no_txd_settings = None" by code_simp
  then have h': "VFD_RS485_TXD_PIN no_txd_settings = None \<or> VFD_RS485_RXD_PIN no_txd_settings = None \<or>
           VFD_RS485_RTS_PIN no_txd_settings = None \<or> laser_mode no_txd_settings" by simp
  have ev: "vfd_cmd_queue power_on = []" "bus_activity power_on = []" by code_simp+
  show ?thesis
    using uninitialised_no_ops [OF h', where D = example_driver and s = power_on and x = 500] h ev
    by simp
qed

text \<open>
  The claim as the specification states it, the device state unchanged, fails after an
  initialisation without the TXD pin: \<^verbatim>\<open>get_state\<close> answers \<^verbatim>\<open>Disable\<close> before
  \<^verbatim>\<open>set_state(SpindleState::Cw, 500)\<close> and \<^verbatim>\<open>Cw\<close> after it.
\<close>

theorem uninitialised_no_ops_counterexample:
  "VFD_RS485_TXD_PIN no_txd_settings = None \<and>
   \<not> vfd_ok (vfd (init no_txd_settings power_on)) \<and>
   get_state (init no_txd_settings power_on) = Disable \<and>
   get_state (set_state example_driver (init no_txd_settings power_on) Cw 500) = Cw \<and>
   vfd (set_state example_driver (init no_txd_settings power_on) Cw 500) \<noteq>
     vfd (init no_txd_settings power_on)"
  by code_simp

subsection \<open>The retry loop and the retry ceiling\<close>

declare retry_loop.simps [simp del]

lemma retry_loop_done: "\<not> rc < MAX_RETRIES D \<Longrightarrow> retry_loop D L p rc s = (rc, s)"
  by (subst retry_loop.simps) simp

lemma retry_loop_step:
  "rc < MAX_RETRIES D \<Longrightarrow>
   retry_loop D L p rc s =
     retry_loop D L p (Suc (fst (attempt D L p rc s))) (snd (attempt D L p rc s))"
  by (subst retry_loop.simps) simp

lemma add_crc_fields [simp]:
  "critical (add_crc c) = critical c"
  "rx_length (add_crc c) = rx_length c + 2"
  "tx_length (add_crc c) = tx_length c + 2"
  by (simp_all add: add_crc_def Let_def)

lemma attempt_invalid:
  assumes "link_never_valid L" and "2 \<le> rx_length (next_cmd s)"
  shows "attempt D L p rc s =
           (rc, s\<lparr>rx_message := rx_message (snd (uart_read_bytes L s (rx_length (next_cmd s)))),
                  uart_reads := Suc (uart_reads s),
                  trace := trace s @ [UartFlush, UartWrite (tx_frame (next_cmd s)),
                                      TaskDelay VFD_RS485_POLL_RATE]\<rparr>)"
proof -
  let ?s1 = "emit (UartWrite (tx_frame (next_cmd s))) (emit UartFlush s)"
  have "\<not> response_ok (rx_message (snd (uart_read_bytes L ?s1 (rx_length (next_cmd s)))))
            (fst (uart_read_bytes L ?s1 (rx_length (next_cmd s)))) (rx_length (next_cmd s))"
    using assms unfolding link_never_valid_def by blast
  then show ?thesis
    by (simp add: attempt_def Let_def case_prod_beta)
       (simp add: uart_read_bytes_def emit_def vTaskDelay_def Let_def)
qed

lemma retry_loop_never_valid:
  assumes "link_never_valid L" and "2 \<le> rx_length (next_cmd s)" and "rc \<le> MAX_RETRIES D"
    and "n = MAX_RETRIES D - rc"
  shows "fst (retry_loop D L p rc s) = MAX_RETRIES D \<and>
         next_cmd (snd (retry_loop D L p rc s)) = next_cmd s \<and>
         unresponsive (snd (retry_loop D L p rc s)) = unresponsive s \<and>
         trace (snd (retry_loop D L p rc s)) =
           trace s @ concat (replicate n
             [UartFlush, UartWrite (tx_frame (next_cmd s)), TaskDelay VFD_RS485_POLL_RATE])"
  using assms
proof (induction n arbitrary: rc s)
  case 0
  then have "\<not> rc < MAX_RETRIES D" and "rc = MAX_RETRIES D" by simp_all
  then show ?case by (simp add: retry_loop_done)
next
  case (Suc n)
  then have lt: "rc < MAX_RETRIES D" by simp
  let ?s' = "s\<lparr>rx_message := rx_message (snd (uart_read_bytes L s (rx_length (next_cmd s)))),
                uart_reads := Suc (uart_reads s),
                trace := trace s @ [UartFlush, UartWrite (tx_frame (next_cmd s)),
                                    TaskDelay VFD_RS485_POLL_RATE]\<rparr>"
  have a: "attempt D L p rc s = (rc, ?s')"
    by (rule attempt_invalid [OF Suc.prems(1,2)])
  have r: "retry_loop D L p rc s = retry_loop D L p (Suc rc) ?s'"
    by (simp add: retry_loop_step [OF lt] a)
  have ih: "fst (retry_loop D L p (Suc rc) ?s') = MAX_RETRIES D \<and>
         next_cmd (snd (retry_loop D L p (Suc rc) ?s')) = next_cmd ?s' \<and>
         unresponsive (snd (retry_loop D L p (Suc rc) ?s')) = unresponsive ?s' \<and>
         trace (snd (retry_loop D L p (Suc rc) ?s')) =
           trace ?s' @ concat (replicate n
             [UartFlush, UartWrite (tx_frame (next_cmd ?s')), TaskDelay VFD_RS485_POLL_RATE])"
    using Suc.prems lt by (intro Suc.IH) simp_all
  show ?case
    using ih by (simp add: r)
qed


lemma alarms_append: "alarms (s\<lparr>trace := trace s @ es\<rparr>) = alarms s + count_list es ExecAlarmSpindleControl"
  by (simp add: alarms_def)

lemma count_list_concat_replicate_triple:
  "count_list (concat (replicate n [UartFlush, UartWrite f, TaskDelay d])) ExecAlarmSpindleControl = 0"
  by (induction n) simp_all

lemma transaction_never_valid:
  assumes "link_never_valid L"
  shows "trace (transaction D L p s) =
           trace s @ concat (replicate (MAX_RETRIES D)
             [UartFlush, UartWrite (tx_frame (add_crc (next_cmd s))), TaskDelay VFD_RS485_POLL_RATE]) @
           (if unresponsive s then []
            else MsgInt ''Spindle RS485 Unresponsive %d'' (rx_length (add_crc (next_cmd s))) #
                 (if critical (next_cmd s)
                  then [Msg ''Critical Spindle RS485 Unresponsive'', ExecAlarmSpindleControl]
                  else []))"
    and "unresponsive (transaction D L p s)"
proof -
  let ?s1 = "s\<lparr>next_cmd := add_crc (next_cmd s)\<rparr>"
  have len: "2 \<le> rx_length (next_cmd ?s1)" by simp
  note rl = retry_loop_never_valid [OF assms len, of 0 D "MAX_RETRIES D" p]
  have t: "transaction D L p s = ceiling_check D (MAX_RETRIES D) (snd (retry_loop D L p 0 ?s1))"
    using rl by (simp add: transaction_def Let_def case_prod_beta)
  show "trace (transaction D L p s) =
           trace s @ concat (replicate (MAX_RETRIES D)
             [UartFlush, UartWrite (tx_frame (add_crc (next_cmd s))), TaskDelay VFD_RS485_POLL_RATE]) @
           (if unresponsive s then []
            else MsgInt ''Spindle RS485 Unresponsive %d'' (rx_length (add_crc (next_cmd s))) #
                 (if critical (next_cmd s)
                  then [Msg ''Critical Spindle RS485 Unresponsive'', ExecAlarmSpindleControl]
                  else []))"
    using rl by (simp add: t ceiling_check_def Let_def emit_def grbl_msg_sendf_def)
  show "unresponsive (transaction D L p s)"
    using rl by (simp add: t ceiling_check_def Let_def emit_def grbl_msg_sendf_def)
qed

lemma max_rpm_check_keeps:
  "unresponsive (snd (max_rpm_check D s)) = unresponsive s \<and>
   trace (snd (max_rpm_check D s)) = trace s"
  by (simp add: max_rpm_check_def Let_def split: prod.splits option.splits)

lemma choose_cmd_keeps:
  "unresponsive (snd (choose_cmd D s)) = unresponsive s \<and>
   alarms (snd (choose_cmd D s)) = alarms s \<and>
   (snd (fst (choose_cmd D s)) \<longrightarrow> trace (snd (choose_cmd D s)) = trace s)"
proof -
  obtain p s1 where m: "max_rpm_check D s = (p, s1)" by (cases "max_rpm_check D s")
  have k: "unresponsive s1 = unresponsive s \<and> trace s1 = trace s"
    using max_rpm_check_keeps [of D s] by (simp add: m)
  show ?thesis
    using k
    by (simp add: choose_cmd_def m xQueueReceive_def Let_def vTaskDelay_def alarms_def
        split: option.splits prod.splits list.splits)
qed

lemma step_unresponsive:
  assumes "link_never_valid L" and "unresponsive s"
  shows "unresponsive (vfd_cmd_task_step D L s) \<and> alarms (vfd_cmd_task_step D L s) = alarms s"
proof -
  obtain p go s1 where c: "choose_cmd D s = ((p, go), s1)"
    by (metis prod.exhaust)
  have k: "unresponsive s1" "alarms s1 = alarms s"
    using choose_cmd_keeps [of D s] assms(2) by (simp_all add: c)
  show ?thesis
  proof (cases go)
    case False
    then show ?thesis using k by (simp add: vfd_cmd_task_step_def c)
  next
    case True
    have "alarms (transaction D L p s1) = alarms s1"
      using k(1)
      by (simp add: alarms_def transaction_never_valid(1) [OF assms(1)]
          count_list_concat_replicate_triple)
    then show ?thesis
      using True k transaction_never_valid(2) [OF assms(1), of D p s1]
      by (simp add: vfd_cmd_task_step_def c vTaskDelay_def alarms_def)
  qed
qed

lemma steps_unresponsive:
  assumes "link_never_valid L" and "unresponsive s"
  shows "unresponsive ((vfd_cmd_task_step D L ^^ k) s) \<and>
         alarms ((vfd_cmd_task_step D L ^^ k) s) = alarms s"
proof (induction k)
  case 0
  show ?case using assms(2) by simp
next
  case (Suc k)
  then show ?case
    using step_unresponsive [OF assms(1), of "(vfd_cmd_task_step D L ^^ k) s" D] by simp
qed

text \<open>
  C1. On a link that never produces a valid response, an iteration of the task that
  starts with \<^verbatim>\<open>unresponsive == false\<close> and sends a critical envelope writes that same
  frame \<^verbatim>\<open>MAX_RETRIES\<close> times, each write followed by the poll-rate delay, and only then
  logs and calls \<^verbatim>\<open>system_set_exec_alarm\<close>, once. However many iterations follow on
  that link, the device stays unresponsive and the alarm is not raised again.
\<close>

theorem retry_ceiling:
  assumes "link_never_valid L" and "\<not> unresponsive s"
    and "choose_cmd D s = ((parser, True), s1)" and "critical (next_cmd s1)"
  shows "trace (vfd_cmd_task_step D L s) =
           trace s @ concat (replicate (MAX_RETRIES D)
             [UartFlush, UartWrite (tx_frame (add_crc (next_cmd s1))), TaskDelay VFD_RS485_POLL_RATE]) @
           [MsgInt ''Spindle RS485 Unresponsive %d'' (rx_length (add_crc (next_cmd s1))),
            Msg ''Critical Spindle RS485 Unresponsive'', ExecAlarmSpindleControl,
            TaskDelay VFD_RS485_POLL_RATE] \<and>
         alarms (vfd_cmd_task_step D L s) = alarms s + 1 \<and>
         (\<forall>k. unresponsive ((vfd_cmd_task_step D L ^^ k) (vfd_cmd_task_step D L s)) \<and>
              alarms ((vfd_cmd_task_step D L ^^ k) (vfd_cmd_task_step D L s)) = alarms s + 1)"
proof -
  have k: "\<not> unresponsive s1" "trace s1 = trace s"
    using choose_cmd_keeps [of D s] assms(2) by (simp_all add: assms(3))
  have st: "vfd_cmd_task_step D L s = vTaskDelay VFD_RS485_POLL_RATE (transaction D L parser s1)"
    by (simp add: vfd_cmd_task_step_def assms(3))
  have tr: "trace (vfd_cmd_task_step D L s) =
           trace s @ concat (replicate (MAX_RETRIES D)
             [UartFlush, UartWrite (tx_frame (add_crc (next_cmd s1))), TaskDelay VFD_RS485_POLL_RATE]) @
           [MsgInt ''Spindle RS485 Unresponsive %d'' (rx_length (add_crc (next_cmd s1))),
            Msg ''Critical Spindle RS485 Unresponsive'', ExecAlarmSpindleControl,
            TaskDelay VFD_RS485_POLL_RATE]"
    using k assms(4)
    by (simp add: st vTaskDelay_def transaction_never_valid(1) [OF assms(1)])
  have al: "alarms (vfd_cmd_task_step D L s) = alarms s + 1"
    unfolding alarms_def tr by (simp add: count_list_concat_replicate_triple)
  have un: "unresponsive (vfd_cmd_task_step D L s)"
    using transaction_never_valid(2) [OF assms(1), of D parser s1]
    by (simp add: st vTaskDelay_def)
  show ?thesis
    using tr al steps_unresponsive [OF assms(1) un, where D = D] by simp
qed

lemma silent_link_never_valid: "link_never_valid silent_link"
  by (simp add: link_never_valid_def uart_read_bytes_def silent_link_def response_ok_def)

theorem retry_ceiling_witness:
  "link_never_valid silent_link \<and> \<not> unresponsive polled \<and>
   critical (next_cmd (snd (choose_cmd example_driver polled))) \<and>
   alarms polled = 0 \<and>
   alarms (vfd_cmd_task_step example_driver silent_link polled) = 1 \<and>
   alarms ((vfd_cmd_task_step example_driver silent_link ^^ 4)
             (vfd_cmd_task_step example_driver silent_link polled)) = 1"
proof -
  have nu: "\<not> unresponsive polled" by code_simp
  have ch: "choose_cmd example_driver polled =
              ((Some example_max_rpm_parser, True), snd (choose_cmd example_driver polled))"
    by (simp add: choose_cmd_def max_rpm_check_def Let_def polled_def example_driver_def)
  have cr: "critical (next_cmd (snd (choose_cmd example_driver polled)))" by code_simp
  have a0: "alarms polled = 0" by code_simp
  show ?thesis
    using retry_ceiling [OF silent_link_never_valid nu ch cr] silent_link_never_valid nu cr a0
    by simp
qed


text \<open>
  C6, as the code has it. When the response read in an attempt of the retry loop passes
  the length, address and checksum tests and the attached parser reports failure, the
  loop logs "Spindle RS485 did not give a satisfying response", leaves the device marked
  unresponsive and ends without writing the frame again; the test of the retry ceiling
  that follows changes nothing, so the system alarm is not raised, whether the envelope
  is critical or not.
\<close>

theorem semantic_fault:
  assumes "retry_count < MAX_RETRIES D"
    and "response_ok (rx_message (snd (attempt_read L s))) (fst (attempt_read L s))
           (rx_length (next_cmd s))"
    and "p (rx_message (snd (attempt_read L s))) (vfd (snd (attempt_read L s))) = (False, v)"
  shows "retry_loop D L (Some p) retry_count s =
           (MAX_RETRIES D + 2,
            (snd (attempt_read L s))
              \<lparr>vfd := v, unresponsive := True,
               trace := trace s @ [UartFlush, UartWrite (tx_frame (next_cmd s)),
                                   Msg ''Spindle RS485 did not give a satisfying response'']\<rparr>) \<and>
         ceiling_check D (fst (retry_loop D L (Some p) retry_count s))
             (snd (retry_loop D L (Some p) retry_count s)) =
           snd (retry_loop D L (Some p) retry_count s) \<and>
         unresponsive (snd (retry_loop D L (Some p) retry_count s)) \<and>
         bus_activity (snd (retry_loop D L (Some p) retry_count s)) =
           bus_activity s @ [UartFlush, UartWrite (tx_frame (next_cmd s))] \<and>
         alarms (snd (retry_loop D L (Some p) retry_count s)) = alarms s"
proof -
  let ?r = "snd (attempt_read L s)"
  let ?s' = "?r\<lparr>vfd := v, unresponsive := True,
              trace := trace s @ [UartFlush, UartWrite (tx_frame (next_cmd s)),
                                  Msg ''Spindle RS485 did not give a satisfying response'']\<rparr>"
  have tr: "trace ?r = trace s @ [UartFlush, UartWrite (tx_frame (next_cmd s))]"
    by (simp add: attempt_read_def uart_read_bytes_def emit_def Let_def)
  have a: "attempt D L (Some p) retry_count s = (MAX_RETRIES D + 1, ?s')"
    using assms(2,3) tr
    by (simp add: attempt_def Let_def case_prod_beta attempt_read_def grbl_msg_sendf_def)
  have "retry_loop D L (Some p) retry_count s =
          retry_loop D L (Some p) (Suc (MAX_RETRIES D + 1)) ?s'"
    by (simp add: retry_loop_step [OF assms(1)] a)
  also have "\<dots> = (Suc (MAX_RETRIES D + 1), ?s')"
    by (rule retry_loop_done) simp
  finally have t: "retry_loop D L (Some p) retry_count s = (MAX_RETRIES D + 2, ?s')"
    by simp
  show ?thesis
    by (simp add: t bus_activity_def alarms_def ceiling_check_def)
qed

theorem semantic_fault_witness:
  "0 < MAX_RETRIES example_driver \<and>
   critical (next_cmd discovery_framed) \<and>
   response_ok (rx_message (snd (attempt_read error_reply_link discovery_framed)))
     (fst (attempt_read error_reply_link discovery_framed))
     (rx_length (next_cmd discovery_framed)) \<and>
   unresponsive (snd (retry_loop example_driver error_reply_link (Some example_max_rpm_parser) 0
                        discovery_framed)) \<and>
   bus_activity (snd (retry_loop example_driver error_reply_link (Some example_max_rpm_parser) 0
                        discovery_framed)) =
     [UartFlush, UartWrite [1, 3, 176, 5, 0, 2, 242, 202]] \<and>
   alarms (snd (retry_loop example_driver error_reply_link (Some example_max_rpm_parser) 0
                  discovery_framed)) = 0"
proof -
  have m: "0 < MAX_RETRIES example_driver" by code_simp
  have c: "critical (next_cmd discovery_framed)" by code_simp
  have ok: "response_ok (rx_message (snd (attempt_read error_reply_link discovery_framed)))
     (fst (attempt_read error_reply_link discovery_framed))
     (rx_length (next_cmd discovery_framed))" by code_simp
  have pf: "example_max_rpm_parser (rx_message (snd (attempt_read error_reply_link discovery_framed)))
              (vfd (snd (attempt_read error_reply_link discovery_framed))) =
            (False, vfd (snd (attempt_read error_reply_link discovery_framed)))"
    by code_simp
  have ev: "bus_activity discovery_framed = []" "alarms discovery_framed = 0"
    "tx_frame (next_cmd discovery_framed) = [1, 3, 176, 5, 0, 2, 242, 202]"
    by code_simp+
  show ?thesis
    using semantic_fault [where D = example_driver and L = error_reply_link
        and s = discovery_framed and p = example_max_rpm_parser and retry_count = 0,
        OF m ok pf, THEN conjunct2, THEN conjunct2] m c ok ev
    by simp
qed

text \<open>
  The claim as the specification states it, the alarm raised exactly when the envelope is
  critical, fails for the critical maximum-speed request answered by a well-formed
  exception reply: the trace of the transaction ends with the message and holds no alarm.
\<close>

theorem semantic_fault_counterexample:
  "critical (next_cmd discovery) \<and>
   response_ok (rx_message (snd (attempt_read error_reply_link discovery_framed)))
     (fst (attempt_read error_reply_link discovery_framed))
     (rx_length (next_cmd discovery_framed)) \<and>
   \<not> fst (example_max_rpm_parser (rx_message (snd (attempt_read error_reply_link discovery_framed)))
              (vfd (snd (attempt_read error_reply_link discovery_framed)))) \<and>
   trace (transaction example_driver error_reply_link (Some example_max_rpm_parser) discovery) =
     trace discovery @
       [UartFlush, UartWrite [1, 3, 176, 5, 0, 2, 242, 202],
        Msg ''Spindle RS485 did not give a satisfying response''] \<and>
   ExecAlarmSpindleControl \<notin>
     set (trace (transaction example_driver error_reply_link (Some example_max_rpm_parser) discovery))"
  by code_simp

subsection \<open>Capability discovery\<close>

text \<open>
  C5, as the code has it. On an iteration after the first (\<^verbatim>\<open>pollidx\<close> not 0) with
  \<^verbatim>\<open>_max_rpm == 0\<close> and a vendor whose \<^verbatim>\<open>get_max_rpm\<close> returns a parser, the task
  chooses the \<^verbatim>\<open>get_max_rpm\<close> request, marks it critical and sends it with that
  parser, and leaves the queue as it is, whatever it holds.
\<close>

theorem discovery_first:
  assumes "pollidx s \<noteq> 0" and "max_rpm (vfd s) = 0"
    and "get_max_rpm D (vfd s) ((next_cmd s)\<lparr>msg := (msg (next_cmd s))[0 := VFD_RS485_ADDR]\<rparr>) =
           (Some parser, c)"
  shows "choose_cmd D s = ((Some parser, True), s\<lparr>pollidx := 1, next_cmd := c\<lparr>critical := True\<rparr>\<rparr>) \<and>
         vfd_cmd_queue (snd (choose_cmd D s)) = vfd_cmd_queue s \<and>
         critical (next_cmd (snd (choose_cmd D s))) \<and>
         vfd_cmd_task_step D L s =
           vTaskDelay VFD_RS485_POLL_RATE
             (transaction D L (Some parser) (s\<lparr>pollidx := 1, next_cmd := c\<lparr>critical := True\<rparr>\<rparr>))"
proof -
  have 1: "choose_cmd D s = ((Some parser, True), s\<lparr>pollidx := 1, next_cmd := c\<lparr>critical := True\<rparr>\<rparr>)"
    using assms by (simp add: choose_cmd_def max_rpm_check_def Let_def)
  show ?thesis
    by (simp add: 1 vfd_cmd_task_step_def)
qed

theorem discovery_first_witness:
  "pollidx polled \<noteq> 0 \<and> max_rpm (vfd polled) = 0 \<and> length (vfd_cmd_queue polled) = 1 \<and>
   vfd_cmd_queue (snd (choose_cmd example_driver polled)) = vfd_cmd_queue polled \<and>
   critical (next_cmd (snd (choose_cmd example_driver polled)))"
proof -
  have p: "pollidx polled \<noteq> 0" and m: "max_rpm (vfd polled) = 0"
    and q: "length (vfd_cmd_queue polled) = 1"
    by code_simp+
  have g: "get_max_rpm example_driver (vfd polled)
             ((next_cmd polled)\<lparr>msg := (msg (next_cmd polled))[0 := VFD_RS485_ADDR]\<rparr>) =
           (Some example_max_rpm_parser,
            snd (get_max_rpm example_driver (vfd polled)
                   ((next_cmd polled)\<lparr>msg := (msg (next_cmd polled))[0 := VFD_RS485_ADDR]\<rparr>)))"
    by (simp add: example_driver_def)
  show ?thesis
    using discovery_first [where D = example_driver and s = polled
        and parser = example_max_rpm_parser, OF p m g, THEN conjunct2] p m q
    by simp
qed

text \<open>
  The claim as the specification states it fails in two ways. With a vendor that has no
  maximum-speed request, an iteration with \<^verbatim>\<open>_max_rpm == 0\<close> sends the queued speed
  command, which is not critical. On the very first iteration (\<^verbatim>\<open>pollidx == 0\<close>) the
  condition stops before \<^verbatim>\<open>get_max_rpm\<close> is called, and the queued speed command is
  sent although the vendor has the request.
\<close>

theorem discovery_first_counterexample:
  "pollidx polled = 1 \<and> max_rpm (vfd polled) = 0 \<and>
   Option.is_none (fst (fst (choose_cmd plain_driver polled))) \<and>
   snd (fst (choose_cmd plain_driver polled)) \<and>
   next_cmd (snd (choose_cmd plain_driver polled)) =
     \<lparr>critical = False, tx_length = 6, rx_length = 6,
      msg = [1, 6, 16, 0, 1, 244, 0, 0, 0, 0, 0, 0, 0, 0, 0, 0]\<rparr> \<and>
   pollidx first_iteration = 0 \<and> max_rpm (vfd first_iteration) = 0 \<and>
   Option.is_none (fst (fst (choose_cmd example_driver first_iteration))) \<and>
   snd (fst (choose_cmd example_driver first_iteration)) \<and>
   next_cmd (snd (choose_cmd example_driver first_iteration)) =
     \<lparr>critical = False, tx_length = 6, rx_length = 6,
      msg = [1, 6, 16, 0, 1, 244, 0, 0, 0, 0, 0, 0, 0, 0, 0, 0]\<rparr>"
  by code_simp

end
